theory Spec2Isabelle
  imports Main "HOL-Library.Word" "HOL-Library.Sublist"
begin

unbundle bit_operations_syntax

section \<open>Go values used by pkg/chunked/filesystem\_linux.go\<close>

text \<open>
  Go's \<open>int\<close> and \<open>int64\<close> values (descriptors, offsets, sizes, ids) are HOL integers: the
  file does no arithmetic on them.  \<open>uintptr\<close>, \<open>uint64\<close> flags and \<open>os.FileMode\<close> are
  words, because the file tests bits of them and compares a \<open>uintptr\<close> with zero.
\<close>

datatype errno = ENOENT | EEXIST | ENOTEMPTY | ENOSYS | ENOTSUP | ELOOP | EINVAL | EBADF
  | EACCES | EPERM | ENOTDIR | EXDEV | EIO

datatype farg = AStr string | AInt int

text \<open>
  A Go \<open>error\<close> value: a bare \<open>syscall.Errno\<close>, an \<open>*fs.PathError\<close> (operation, path,
  errno), \<open>errors.New\<close>, or \<open>fmt.Errorf\<close> with its format string, its arguments and the
  error wrapped by \<open>%w\<close> when the format has one.  A nil error is \<open>None\<close> of
  \<open>error option\<close>.
\<close>

datatype error = Errno errno
  | PathError string string errno
  | New string
  | Errorf string "farg list" "error option"

text \<open>\<open>errors.Is(err, unix.E)\<close>: some error of the unwrap chain is the errno \<open>E\<close>.\<close>

fun errors_Is :: "error \<Rightarrow> errno \<Rightarrow> bool" where
  "errors_Is (Errno e) t = (e = t)"
| "errors_Is (PathError _ _ e) t = (e = t)"
| "errors_Is (New _) t = False"
| "errors_Is (Errorf _ _ None) t = False"
| "errors_Is (Errorf _ _ (Some w)) t = errors_Is w t"

text \<open>
  \<open>os.IsExist\<close>: looks through one \<open>*PathError\<close> only (not through \<open>%w\<close>) and accepts
  \<open>EEXIST\<close> and \<open>ENOTEMPTY\<close>.
\<close>

fun os_IsExist :: "error \<Rightarrow> bool" where
  "os_IsExist (Errno e) = (e = EEXIST \<or> e = ENOTEMPTY)"
| "os_IsExist (PathError _ _ e) = (e = EEXIST \<or> e = ENOTEMPTY)"
| "os_IsExist _ = False"

type_synonym flags = "64 word"
type_synonym FileMode = "32 word"

definition O_RDONLY :: flags where "O_RDONLY = 0x0"
definition O_WRONLY :: flags where "O_WRONLY = 0x1"
definition O_CREAT :: flags where "O_CREAT = 0x40"
definition O_EXCL :: flags where "O_EXCL = 0x80"
definition O_TRUNC :: flags where "O_TRUNC = 0x200"
definition O_DIRECTORY :: flags where "O_DIRECTORY = 0x10000"
definition O_NOFOLLOW :: flags where "O_NOFOLLOW = 0x20000"
definition O_CLOEXEC :: flags where "O_CLOEXEC = 0x80000"
definition O_PATH :: flags where "O_PATH = 0x200000"
definition RESOLVE_IN_ROOT :: "64 word" where "RESOLVE_IN_ROOT = 0x10"
definition AT_FDCWD :: int where "AT_FDCWD = - 100"
definition AT_SYMLINK_NOFOLLOW :: int where "AT_SYMLINK_NOFOLLOW = 0x100"
definition AT_SYMLINK_FOLLOW :: int where "AT_SYMLINK_FOLLOW = 0x400"
definition SEEK_CUR :: int where "SEEK_CUR = 1"
definition tar_TypeSymlink :: "8 word" where "tar_TypeSymlink = 0x32"

record OpenHow =
  how_Flags :: "64 word"
  how_Mode :: "64 word"
  how_Resolve :: "64 word"

record FileInfo =
  Size :: int

record Timespec =
  Sec :: int
  Nsec :: int

text \<open>
  A \<open>time.Time\<close> seen through the two methods the file calls on it; a \<open>*time.Time\<close> is an
  option of it.
\<close>

record time_Time =
  IsZero :: bool
  UnixNano :: int

text \<open>
  An \<open>*os.File\<close> is an option; \<open>Sysfd\<close> is the descriptor the handle holds, \<open>-1\<close> once
  the handle is closed.  \<open>Fd()\<close> returns it as a \<open>uintptr\<close>, and all ones on a nil handle.
  \<open>os.NewFile\<close> returns nil when the descriptor, read as an \<open>int\<close>, is negative.
\<close>

record os_File =
  Sysfd :: int
  file_name :: string

definition Fd :: "os_File option \<Rightarrow> 64 word" where
  "Fd f = (case f of None \<Rightarrow> - 1 | Some h \<Rightarrow> word_of_int (Sysfd h))"

definition os_NewFile :: "64 word \<Rightarrow> string \<Rightarrow> os_File option" where
  "os_NewFile fd name =
     (let fdi = sint fd in
      if fdi < 0 then None else Some \<lparr>Sysfd = fdi, file_name = name\<rparr>)"

section \<open>Library string functions\<close>

fun digits :: "nat \<Rightarrow> string" where
  "digits n = (if n < 10 then [char_of (48 + n)]
               else digits (n div 10) @ [char_of (48 + n mod 10)])"

declare digits.simps [simp del]

text \<open>\<open>fmt.Sprintf("%d", i)\<close>.\<close>

definition show_int :: "int \<Rightarrow> string" where
  "show_int i = (if i < 0 then CHR ''-'' # digits (nat (- i)) else digits (nat i))"

definition is_sep :: "char \<Rightarrow> bool" where
  "is_sep c = (c = CHR ''/'')"

text \<open>\<open>filepath.Split\<close>: the path up to and including its last separator, and the rest.\<close>

definition filepath_Split :: "string \<Rightarrow> string \<times> string" where
  "filepath_Split p =
     (let b = rev (takeWhile (\<lambda>c. \<not> is_sep c) (rev p))
      in (take (length p - length b) p, b))"

text \<open>\<open>filepath.Base\<close>.\<close>

definition filepath_Base :: "string \<Rightarrow> string" where
  "filepath_Base p =
     (if p = [] then ''.''
      else let q = rev (dropWhile is_sep (rev p));
               b = rev (takeWhile (\<lambda>c. \<not> is_sep c) (rev q))
           in if b = [] then ''/'' else b)"

fun split_sep :: "string \<Rightarrow> string list" where
  "split_sep [] = [[]]"
| "split_sep (c # cs) =
     (if is_sep c then [] # split_sep cs
      else (case split_sep cs of [] \<Rightarrow> [[c]] | e # es \<Rightarrow> (c # e) # es))"

fun join_sep :: "string list \<Rightarrow> string" where
  "join_sep [] = []"
| "join_sep [e] = e"
| "join_sep (e # es) = e @ ''/'' @ join_sep es"

text \<open>
  \<open>filepath.Clean\<close>, element by element: the stack holds the elements written so far, last
  one first.  Empty elements and \<open>.\<close> are dropped; \<open>..\<close> removes the last element when
  that is a name, is dropped at the root of a rooted path, and is kept otherwise.
\<close>

definition clean_step :: "bool \<Rightarrow> string list \<Rightarrow> string \<Rightarrow> string list" where
  "clean_step rooted stack e =
     (if e = [] \<or> e = ''.'' then stack
      else if e = ''..'' then
        (case stack of
           [] \<Rightarrow> if rooted then [] else [''..'']
         | t # rest \<Rightarrow> if t = ''..'' then ''..'' # stack else rest)
      else e # stack)"

definition filepath_Clean :: "string \<Rightarrow> string" where
  "filepath_Clean p =
     (let rooted = (p \<noteq> [] \<and> is_sep (hd p));
          out = join_sep (rev (foldl (clean_step rooted) [] (split_sep p)))
      in if rooted then ''/'' @ out else if out = [] then ''.'' else out)"

text \<open>\<open>filepath.Dir\<close>: \<open>Clean\<close> of the directory part of \<open>Split\<close>.\<close>

definition filepath_Dir :: "string \<Rightarrow> string" where
  "filepath_Dir p = filepath_Clean (fst (filepath_Split p))"

text \<open>
  \<open>base64.StdEncoding.DecodeString\<close>: line breaks are ignored, the rest is groups of four
  alphabet characters, the last group possibly padded with one or two \<open>=\<close>.
\<close>

definition b64_val :: "char \<Rightarrow> nat option" where
  "b64_val c =
     (let n = (of_char c :: nat) in
      if 65 \<le> n \<and> n \<le> 90 then Some (n - 65)
      else if 97 \<le> n \<and> n \<le> 122 then Some (n - 71)
      else if 48 \<le> n \<and> n \<le> 57 then Some (n + 4)
      else if c = CHR ''+'' then Some 62
      else if c = CHR ''/'' then Some 63
      else None)"

definition b64_bytes :: "nat \<Rightarrow> nat \<Rightarrow> nat \<Rightarrow> nat \<Rightarrow> string" where
  "b64_bytes a b c d =
     (let v = a * 262144 + b * 4096 + c * 64 + d
      in [char_of (v div 65536), char_of (v div 256 mod 256), char_of (v mod 256)])"

fun b64_quanta :: "string \<Rightarrow> string option" where
  "b64_quanta [] = Some []"
| "b64_quanta [a, b, c, d] =
     (case (b64_val a, b64_val b) of
        (Some x, Some y) \<Rightarrow>
          (if c = CHR ''='' then
             (if d = CHR ''='' then Some (take 1 (b64_bytes x y 0 0)) else None)
           else (case b64_val c of
                   None \<Rightarrow> None
                 | Some z \<Rightarrow>
                     (if d = CHR ''='' then Some (take 2 (b64_bytes x y z 0))
                      else (case b64_val d of
                              None \<Rightarrow> None
                            | Some u \<Rightarrow> Some (b64_bytes x y z u)))))
      | _ \<Rightarrow> None)"
| "b64_quanta (a # b # c # d # rest) =
     (case (b64_val a, b64_val b, b64_val c, b64_val d) of
        (Some x, Some y, Some z, Some u) \<Rightarrow>
          (case b64_quanta rest of None \<Rightarrow> None | Some bs \<Rightarrow> Some (b64_bytes x y z u @ bs))
      | _ \<Rightarrow> None)"
| "b64_quanta _ = None"

definition base64_DecodeString :: "string \<Rightarrow> error + string" where
  "base64_DecodeString v =
     (case b64_quanta (filter (\<lambda>c. c \<noteq> CHR 0x0A \<and> c \<noteq> CHR 0x0D) v) of
        None \<Rightarrow> Inl (New ''illegal base64 data'')
      | Some bs \<Rightarrow> Inr bs)"

section \<open>The world outside the file\<close>

text \<open>
  Everything the file calls and does not define is a parameter: the system calls of
  \<open>golang.org/x/sys/unix\<close> and \<open>os\<close>, \<open>securejoin.SecureJoin\<close>,
  \<open>driversCopy.CopyRegularToFile\<close>, and the declarations of package \<open>chunked\<close> that
  live in other files (\<open>typeToTarType\<close>, the keys of \<open>xattrsToIgnore\<close>,
  \<open>newFileFlags\<close>).  Each call maps the state of the world \<open>'w\<close> to its result and
  the next state of the world, so that the theorems hold for every kernel.
\<close>

record 'w env =
  os_Stat :: "string \<Rightarrow> 'w \<Rightarrow> (error + FileInfo) \<times> 'w"
  os_Readlink :: "string \<Rightarrow> 'w \<Rightarrow> (error + string) \<times> 'w"
  unix_Linkat :: "int \<Rightarrow> string \<Rightarrow> int \<Rightarrow> string \<Rightarrow> int \<Rightarrow> 'w \<Rightarrow> error option \<times> 'w"
  unix_Unlinkat :: "int \<Rightarrow> string \<Rightarrow> int \<Rightarrow> 'w \<Rightarrow> error option \<times> 'w"
  unix_Openat2 :: "int \<Rightarrow> string \<Rightarrow> OpenHow \<Rightarrow> 'w \<Rightarrow> (error + int) \<times> 'w"
  unix_Open :: "string \<Rightarrow> int \<Rightarrow> 32 word \<Rightarrow> 'w \<Rightarrow> (error + int) \<times> 'w"
  unix_Openat :: "int \<Rightarrow> string \<Rightarrow> int \<Rightarrow> 32 word \<Rightarrow> 'w \<Rightarrow> (error + int) \<times> 'w"
  unix_Close :: "int \<Rightarrow> 'w \<Rightarrow> error option \<times> 'w"
  unix_Dup :: "int \<Rightarrow> 'w \<Rightarrow> (error + int) \<times> 'w"
  unix_Mkdirat :: "int \<Rightarrow> string \<Rightarrow> 32 word \<Rightarrow> 'w \<Rightarrow> error option \<times> 'w"
  unix_Seek :: "int \<Rightarrow> int \<Rightarrow> int \<Rightarrow> 'w \<Rightarrow> (error + int) \<times> 'w"
  unix_Ftruncate :: "int \<Rightarrow> int \<Rightarrow> 'w \<Rightarrow> error option \<times> 'w"
  unix_Fchown :: "int \<Rightarrow> int \<Rightarrow> int \<Rightarrow> 'w \<Rightarrow> error option \<times> 'w"
  unix_Fchownat :: "int \<Rightarrow> string \<Rightarrow> int \<Rightarrow> int \<Rightarrow> int \<Rightarrow> 'w \<Rightarrow> error option \<times> 'w"
  unix_Fsetxattr :: "int \<Rightarrow> string \<Rightarrow> string \<Rightarrow> int \<Rightarrow> 'w \<Rightarrow> error option \<times> 'w"
  unix_UtimesNanoAt :: "int \<Rightarrow> string \<Rightarrow> Timespec list \<Rightarrow> int \<Rightarrow> 'w \<Rightarrow> error option \<times> 'w"
  unix_Fchmod :: "int \<Rightarrow> 32 word \<Rightarrow> 'w \<Rightarrow> error option \<times> 'w"
  unix_Fchmodat :: "int \<Rightarrow> string \<Rightarrow> 32 word \<Rightarrow> int \<Rightarrow> 'w \<Rightarrow> error option \<times> 'w"
  securejoin_SecureJoin :: "string \<Rightarrow> string \<Rightarrow> 'w \<Rightarrow> (error + string) \<times> 'w"
  driversCopy_CopyRegularToFile ::
    "string \<Rightarrow> os_File option \<Rightarrow> FileInfo \<Rightarrow> 'w \<Rightarrow> error option \<times> 'w"
  typeToTarType :: "string \<Rightarrow> error + 8 word"
  xattrsToIgnore :: "string list"
  newFileFlags :: flags

text \<open>The calls made, with their arguments, and what each returned.\<close>

datatype call = Stat string
  | Readlink string
  | Linkat int string int string int
  | Unlinkat int string int
  | Openat2 int string OpenHow
  | Open string int "32 word"
  | Openat int string int "32 word"
  | Close int
  | Dup int
  | Mkdirat int string "32 word"
  | Seek int int int
  | Ftruncate int int
  | Fchown int int int
  | Fchownat int string int int int
  | Fsetxattr int string string int
  | UtimesNanoAt int string "Timespec list" int
  | Fchmod int "32 word"
  | Fchmodat int string "32 word" int
  | SecureJoin string string
  | CopyRegularToFile string "os_File option" FileInfo

datatype reply = R_err error | R_ok | R_int int | R_str string | R_info FileInfo

definition rep_e :: "error option \<Rightarrow> reply" where
  "rep_e r = (case r of None \<Rightarrow> R_ok | Some e \<Rightarrow> R_err e)"

definition rep_i :: "error + int \<Rightarrow> reply" where
  "rep_i r = (case r of Inl e \<Rightarrow> R_err e | Inr n \<Rightarrow> R_int n)"

definition rep_s :: "error + string \<Rightarrow> reply" where
  "rep_s r = (case r of Inl e \<Rightarrow> R_err e | Inr n \<Rightarrow> R_str n)"

definition rep_f :: "error + FileInfo \<Rightarrow> reply" where
  "rep_f r = (case r of Inl e \<Rightarrow> R_err e | Inr n \<Rightarrow> R_info n)"

text \<open>
  The state of the process: the world, the log of the calls made so far (oldest first), and
  the package variable \<open>skipOpenat2\<close> (an \<open>int32\<close> that only ever holds 0 or 1).
\<close>

record 'w state =
  world :: 'w
  trace :: "(call \<times> reply) list"
  skipOpenat2 :: int

definition init_state :: "'w \<Rightarrow> 'w state" where
  "init_state w = \<lparr>world = w, trace = [], skipOpenat2 = 0\<rparr>"

text \<open>One call: run it on the world and log it with its result.\<close>

definition sys ::
  "('w \<Rightarrow> 'r \<times> 'w) \<Rightarrow> call \<Rightarrow> ('r \<Rightarrow> reply) \<Rightarrow> 'w state \<Rightarrow> 'r \<times> 'w state" where
  "sys f c rep s =
     (let (r, w) = f (world s)
      in (r, s\<lparr>world := w, trace := trace s @ [(c, rep r)]\<rparr>))"

text \<open>
  \<open>(*os.File).Close\<close>: no system call on a nil or already closed handle; the callers in
  this file drop its result.
\<close>

definition os_Close :: "'w env \<Rightarrow> os_File option \<Rightarrow> 'w state \<Rightarrow> 'w state" where
  "os_Close k f s =
     (case f of
        None \<Rightarrow> s
      | Some h \<Rightarrow> if Sysfd h < 0 then s
                  else snd (sys (unix_Close k (Sysfd h)) (Close (Sysfd h)) rep_e s))"

section \<open>The functions of filesystem\_linux.go\<close>

definition procPathForFd :: "int \<Rightarrow> string" where
  "procPathForFd fd = ''/proc/self/fd/'' @ show_int fd"

definition procPathForFile :: "os_File option \<Rightarrow> string" where
  "procPathForFile f = procPathForFd (sint (Fd f))"

text \<open>
  \<open>fileMetadata\<close>: the fields of the embedded \<open>internal.FileMetadata\<close> that this file
  reads, and the private flag.  \<open>Xattrs\<close> is a Go map; it is held as the list of its
  entries in the order the \<open>range\<close> loop visits them, which Go leaves unspecified.
\<close>

record fileMetadata =
  Type :: string
  Name :: string
  Linkname :: string
  UID :: int
  GID :: int
  ModTime :: "time_Time option"
  AccessTime :: "time_Time option"
  Xattrs :: "(string \<times> string) list"
  skipSetAttrs :: bool

record TarOptions =
  IgnoreChownErrors :: bool

definition doLink :: "'w env \<Rightarrow> int \<Rightarrow> int \<Rightarrow> string \<Rightarrow> 'w state \<Rightarrow> error option \<times> 'w state" where
  "doLink k srcFd destDirFd destBase s =
     (let srcPath = procPathForFd srcFd
      in sys (unix_Linkat k AT_FDCWD srcPath destDirFd destBase AT_SYMLINK_FOLLOW)
             (Linkat AT_FDCWD srcPath destDirFd destBase AT_SYMLINK_FOLLOW) rep_e s)"

definition doHardLink :: "'w env \<Rightarrow> int \<Rightarrow> int \<Rightarrow> string \<Rightarrow> 'w state \<Rightarrow> error option \<times> 'w state" where
  "doHardLink k srcFd destDirFd destBase s =
     (case doLink k srcFd destDirFd destBase s of
        (None, s1) \<Rightarrow> (None, s1)
      | (Some err, s1) \<Rightarrow>
          if os_IsExist err then
            doLink k srcFd destDirFd destBase
              (snd (sys (unix_Unlinkat k destDirFd destBase 0) (Unlinkat destDirFd destBase 0) rep_e s1))
          else (Some err, s1))"

text \<open>\<open>unix.NsecToTimespec\<close> rounds towards minus infinity, as \<open>div\<close> and \<open>mod\<close> do.\<close>

definition timeToTimespec :: "time_Time option \<Rightarrow> Timespec" where
  "timeToTimespec t =
     (case t of
        None \<Rightarrow> \<lparr>Sec = 0, Nsec = 2 ^ 30 - 2\<rparr>
      | Some tm \<Rightarrow>
          if IsZero tm then \<lparr>Sec = 0, Nsec = 2 ^ 30 - 2\<rparr>
          else \<lparr>Sec = UnixNano tm div 1000000000, Nsec = UnixNano tm mod 1000000000\<rparr>)"

text \<open>
  \<open>openFileUnderRootFallback\<close>.  The first part obtains the descriptor; it also returns the
  descriptor whose \<open>unix.Close\<close> is deferred (the parent directory of the
  \<open>O_NOFOLLOW\<close> branch), which runs when the function returns.
\<close>

definition fallback_open ::
  "'w env \<Rightarrow> int \<Rightarrow> string \<Rightarrow> flags \<Rightarrow> FileMode \<Rightarrow> 'w state \<Rightarrow> (error + int) \<times> int option \<times> 'w state" where
  "fallback_open k dirfd name flags mode s =
     (let root = procPathForFd dirfd in
      if flags AND O_NOFOLLOW \<noteq> 0 then
        (let (dirName, baseName) = filepath_Split name in
         case (if dirName \<noteq> [] \<and> dirName \<noteq> ''.''
               then sys (securejoin_SecureJoin k root dirName) (SecureJoin root dirName) rep_s s
               else (Inr root, s)) of
           (Inl err, s1) \<Rightarrow> (Inl err, None, s1)
         | (Inr root', s1) \<Rightarrow>
             (case sys (unix_Open k root' (sint (O_PATH OR O_CLOEXEC)) 0)
                       (Open root' (sint (O_PATH OR O_CLOEXEC)) 0) rep_i s1 of
                (Inl err, s2) \<Rightarrow> (Inl err, None, s2)
              | (Inr parentDirfd, s2) \<Rightarrow>
                  (case sys (unix_Openat k parentDirfd baseName (sint flags) mode)
                            (Openat parentDirfd baseName (sint flags) mode) rep_i s2 of
                     (r, s3) \<Rightarrow> (r, Some parentDirfd, s3))))
      else
        (case sys (securejoin_SecureJoin k root name) (SecureJoin root name) rep_s s of
           (Inl err, s1) \<Rightarrow> (Inl err, None, s1)
         | (Inr newPath, s1) \<Rightarrow>
             (case sys (unix_Openat k dirfd newPath (sint flags) mode)
                       (Openat dirfd newPath (sint flags) mode) rep_i s1 of
                (r, s2) \<Rightarrow> (r, None, s2))))"

definition escape_error :: "string \<Rightarrow> error" where
  "escape_error name =
     Errorf ''while resolving %q.  It resolves outside the root directory'' [AStr name] None"

definition fallback_verify ::
  "'w env \<Rightarrow> string \<Rightarrow> string \<Rightarrow> int \<Rightarrow> 'w state \<Rightarrow> (error + int) \<times> 'w state" where
  "fallback_verify k name targetRoot fd s =
     (case sys (os_Readlink k (procPathForFd fd)) (Readlink (procPathForFd fd)) rep_s s of
        (Inl err, s1) \<Rightarrow> (Inl err, snd (sys (unix_Close k fd) (Close fd) rep_e s1))
      | (Inr target, s1) \<Rightarrow>
          if \<not> prefix targetRoot target
          then (Inl (escape_error name), snd (sys (unix_Close k fd) (Close fd) rep_e s1))
          else (Inr fd, s1))"

definition run_deferred :: "'w env \<Rightarrow> int option \<Rightarrow> 'w state \<Rightarrow> 'w state" where
  "run_deferred k d s =
     (case d of None \<Rightarrow> s | Some fd \<Rightarrow> snd (sys (unix_Close k fd) (Close fd) rep_e s))"

definition openFileUnderRootFallback ::
  "'w env \<Rightarrow> int \<Rightarrow> string \<Rightarrow> flags \<Rightarrow> FileMode \<Rightarrow> 'w state \<Rightarrow> (error + int) \<times> 'w state" where
  "openFileUnderRootFallback k dirfd name flags mode s =
     (let root = procPathForFd dirfd in
      case sys (os_Readlink k root) (Readlink root) rep_s s of
        (Inl err, s1) \<Rightarrow> (Inl err, s1)
      | (Inr targetRoot, s1) \<Rightarrow>
          (case fallback_open k dirfd name flags mode s1 of
             (Inl err, d, s2) \<Rightarrow> (Inl err, run_deferred k d s2)
           | (Inr fd, d, s2) \<Rightarrow>
               (case fallback_verify k name targetRoot fd s2 of
                  (r, s3) \<Rightarrow> (r, run_deferred k d s3))))"

text \<open>\<open>0xFFF\<close> is Go's \<open>0o7777\<close>.\<close>

definition openFileUnderRootOpenat2 ::
  "'w env \<Rightarrow> int \<Rightarrow> string \<Rightarrow> flags \<Rightarrow> FileMode \<Rightarrow> 'w state \<Rightarrow> (error + int) \<times> 'w state" where
  "openFileUnderRootOpenat2 k dirfd name flags mode s =
     (let how = \<lparr>how_Flags = flags, how_Mode = ucast (mode AND 0xFFF),
                 how_Resolve = RESOLVE_IN_ROOT\<rparr>
      in sys (unix_Openat2 k dirfd name how) (Openat2 dirfd name how) rep_i s)"

definition openFileUnderRootRaw ::
  "'w env \<Rightarrow> int \<Rightarrow> string \<Rightarrow> flags \<Rightarrow> FileMode \<Rightarrow> 'w state \<Rightarrow> (error + int) \<times> 'w state" where
  "openFileUnderRootRaw k dirfd name flags mode s =
     (if name = [] then sys (unix_Dup k dirfd) (Dup dirfd) rep_i s
      else if skipOpenat2 s > 0 then openFileUnderRootFallback k dirfd name flags mode s
      else
        (case openFileUnderRootOpenat2 k dirfd name flags mode s of
           (Inl err, s1) \<Rightarrow>
             if errors_Is err ENOSYS
             then openFileUnderRootFallback k dirfd name flags mode (s1\<lparr>skipOpenat2 := 1\<rparr>)
             else (Inl err, s1)
         | (Inr fd, s1) \<Rightarrow> (Inr fd, s1)))"

text \<open>
  \<open>openOrCreateDirUnderRoot\<close> calls itself on \<open>filepath.Dir(name)\<close>, which is never empty
  and is its own parent at \<open>.\<close> and \<open>/\<close>: the recursion has no bound of its own.  The
  first argument bounds the depth of the calls; \<open>None\<close> means the bound was reached before
  the function returned.
\<close>

fun openOrCreateDirUnderRoot ::
  "nat \<Rightarrow> 'w env \<Rightarrow> int \<Rightarrow> string \<Rightarrow> FileMode \<Rightarrow> 'w state
     \<Rightarrow> ((error + os_File option) \<times> 'w state) option" where
  "openOrCreateDirUnderRoot 0 k dirfd name mode s = None"
| "openOrCreateDirUnderRoot (Suc n) k dirfd name mode s =
     (case openFileUnderRootRaw k dirfd name (O_DIRECTORY OR O_RDONLY) 0 s of
        (Inr fd, s1) \<Rightarrow> Some (Inr (os_NewFile (word_of_int fd) name), s1)
      | (Inl err, s1) \<Rightarrow>
          if errors_Is err ENOENT then
            (let parent = filepath_Dir name in
             if parent \<noteq> [] then
               (case openOrCreateDirUnderRoot n k dirfd parent mode s1 of
                  None \<Rightarrow> None
                | Some (Inl err2, s2) \<Rightarrow> Some (Inl err, s2)
                | Some (Inr pDir, s2) \<Rightarrow>
                    (let baseName = filepath_Base name in
                     case sys (unix_Mkdirat k (sint (Fd pDir)) baseName mode)
                              (Mkdirat (sint (Fd pDir)) baseName mode) rep_e s2 of
                       (Some err2, s3) \<Rightarrow> Some (Inl err, os_Close k pDir s3)
                     | (None, s3) \<Rightarrow>
                         (case openFileUnderRootRaw k (sint (Fd pDir)) baseName
                                 (O_DIRECTORY OR O_RDONLY) 0 s3 of
                            (Inr fd, s4) \<Rightarrow>
                              Some (Inr (os_NewFile (word_of_int fd) name), os_Close k pDir s4)
                          | (Inl err', s4) \<Rightarrow> Some (Inl err', os_Close k pDir s4))))
             else Some (Inl err, s1))
          else Some (Inl err, s1))"

definition openFileUnderRoot ::
  "nat \<Rightarrow> 'w env \<Rightarrow> int \<Rightarrow> string \<Rightarrow> flags \<Rightarrow> FileMode \<Rightarrow> 'w state
     \<Rightarrow> ((error + os_File option) \<times> 'w state) option" where
  "openFileUnderRoot fuel k dirfd name flags mode s =
     (case openFileUnderRootRaw k dirfd name flags mode s of
        (Inr fd, s1) \<Rightarrow> Some (Inr (os_NewFile (word_of_int fd) name), s1)
      | (Inl err, s1) \<Rightarrow>
          (let hasCreate = (flags AND O_CREAT \<noteq> 0);
               failed = Inl (Errorf ''open %q under the rootfs: %w'' [AStr name] (Some err))
           in if errors_Is err ENOENT \<and> hasCreate then
                (let parent = filepath_Dir name in
                 if parent \<noteq> [] then
                   (case openOrCreateDirUnderRoot fuel k dirfd parent 0 s1 of
                      None \<Rightarrow> None
                    | Some (Inl err2, s2) \<Rightarrow> Some (failed, s2)
                    | Some (Inr newDirfd, s2) \<Rightarrow>
                        (case openFileUnderRootRaw k (sint (Fd newDirfd)) (filepath_Base name)
                                flags mode s2 of
                           (Inr fd, s3) \<Rightarrow>
                             Some (Inr (os_NewFile (word_of_int fd) name), os_Close k newDirfd s3)
                         | (Inl err3, s3) \<Rightarrow> Some (failed, os_Close k newDirfd s3)))
                 else Some (failed, s1))
              else Some (failed, s1)))"

definition appendHole :: "'w env \<Rightarrow> int \<Rightarrow> int \<Rightarrow> 'w state \<Rightarrow> error option \<times> 'w state" where
  "appendHole k fd sz s =
     (case sys (unix_Seek k fd sz SEEK_CUR) (Seek fd sz SEEK_CUR) rep_i s of
        (Inl err, s1) \<Rightarrow> (Some err, s1)
      | (Inr off, s1) \<Rightarrow>
          (case sys (unix_Ftruncate k fd off) (Ftruncate fd off) rep_e s1 of
             (Some err, s2) \<Rightarrow> (Some err, s2)
           | (None, s2) \<Rightarrow> (None, s2)))"

text \<open>
  \<open>copyFileContent\<close> returns the handle, the size and the error, and writes
  \<open>skipSetAttrs\<close> through its \<open>fileMetadata\<close> pointer: the model returns the record too.
  \<open>createAndCopy\<close> is the part of the function after the hard-link attempt.
\<close>

type_synonym copied = "os_File option \<times> int \<times> error option"

definition createAndCopy ::
  "nat \<Rightarrow> 'w env \<Rightarrow> string \<Rightarrow> FileInfo \<Rightarrow> string \<Rightarrow> int \<Rightarrow> FileMode \<Rightarrow> 'w state
     \<Rightarrow> (copied \<times> 'w state) option" where
  "createAndCopy fuel k src st destFile dirfd mode s =
     (case openFileUnderRoot fuel k dirfd destFile (newFileFlags k) mode s of
        None \<Rightarrow> None
      | Some (Inl err, s1) \<Rightarrow>
          Some ((None, - 1,
                 Some (Errorf ''open file %q under rootfs for copy: %w'' [AStr destFile] (Some err))),
                s1)
      | Some (Inr dstFile, s1) \<Rightarrow>
          (case sys (driversCopy_CopyRegularToFile k src dstFile st)
                    (CopyRegularToFile src dstFile st) rep_e s1 of
             (Some err, s2) \<Rightarrow>
               Some ((None, - 1,
                      Some (Errorf ''copy to file %q under rootfs: %w'' [AStr destFile] (Some err))),
                     os_Close k dstFile s2)
           | (None, s2) \<Rightarrow> Some ((dstFile, Size st, None), s2)))"

definition copyFileContent ::
  "nat \<Rightarrow> 'w env \<Rightarrow> int \<Rightarrow> fileMetadata \<Rightarrow> int \<Rightarrow> FileMode \<Rightarrow> bool \<Rightarrow> 'w state
     \<Rightarrow> ((fileMetadata \<times> copied) \<times> 'w state) option" where
  "copyFileContent fuel k srcFd md dirfd mode useHardLinks s =
     (let destFile = Name md; src = procPathForFd srcFd in
      case sys (os_Stat k src) (Stat src) rep_f s of
        (Inl err, s1) \<Rightarrow>
          Some ((md, None, - 1,
                 Some (Errorf ''copy file content for %q: %w'' [AStr destFile] (Some err))), s1)
      | (Inr st, s1) \<Rightarrow>
          if useHardLinks then
            (let (destDirPath, destBase) = filepath_Split destFile in
             case openFileUnderRoot fuel k dirfd destDirPath 0 0 s1 of
               None \<Rightarrow> None
             | Some (Inl err, s2) \<Rightarrow>
                 map_option (\<lambda>(r, s3). ((md, r), s3))
                   (createAndCopy fuel k src st destFile dirfd mode s2)
             | Some (Inr destDir, s2) \<Rightarrow>
                 (case doHardLink k srcFd (sint (Fd destDir)) destBase s2 of
                    (None, s3) \<Rightarrow>
                      Some ((md\<lparr>skipSetAttrs := True\<rparr>, None, Size st, None),
                            os_Close k destDir s3)
                  | (Some err, s3) \<Rightarrow>
                      map_option (\<lambda>(r, s4). ((md, r), os_Close k destDir s4))
                        (createAndCopy fuel k src st destFile dirfd mode s3)))
          else map_option (\<lambda>(r, s2). ((md, r), s2))
                 (createAndCopy fuel k src st destFile dirfd mode s1))"

text \<open>\<open>setFileAttrs\<close>: the closures, the loop over the extended attributes, and the body.\<close>

definition canIgnore :: "error option \<Rightarrow> bool" where
  "canIgnore err =
     (case err of None \<Rightarrow> True | Some e \<Rightarrow> errors_Is e ENOSYS \<or> errors_Is e ENOTSUP)"

fun setXattrs ::
  "'w env \<Rightarrow> int \<Rightarrow> string \<Rightarrow> (string \<times> string) list \<Rightarrow> 'w state \<Rightarrow> error option \<times> 'w state" where
  "setXattrs k fd name [] s = (None, s)"
| "setXattrs k fd name ((x, v) # rest) s =
     (if x \<in> set (xattrsToIgnore k) then setXattrs k fd name rest s
      else
        (case base64_DecodeString v of
           Inl err \<Rightarrow> (Some (Errorf ''decode xattr %q: %w'' [AStr v] (Some err)), s)
         | Inr data \<Rightarrow>
             (case sys (unix_Fsetxattr k fd x data 0) (Fsetxattr fd x data 0) rep_e s of
                (err, s1) \<Rightarrow>
                  if \<not> canIgnore err
                  then (Some (Errorf ''set xattr %s=%q for %q: %w''
                                [AStr x, AStr data, AStr name] err), s1)
                  else setXattrs k fd name rest s1)))"

definition doChown ::
  "'w env \<Rightarrow> bool \<Rightarrow> int \<Rightarrow> string \<Rightarrow> int \<Rightarrow> fileMetadata \<Rightarrow> 'w state \<Rightarrow> error option \<times> 'w state" where
  "doChown k usePath dirfd baseName fd md s =
     (if usePath
      then sys (unix_Fchownat k dirfd baseName (UID md) (GID md) AT_SYMLINK_NOFOLLOW)
               (Fchownat dirfd baseName (UID md) (GID md) AT_SYMLINK_NOFOLLOW) rep_e s
      else sys (unix_Fchown k fd (UID md) (GID md)) (Fchown fd (UID md) (GID md)) rep_e s)"

definition doUtimes ::
  "'w env \<Rightarrow> bool \<Rightarrow> int \<Rightarrow> string \<Rightarrow> int \<Rightarrow> fileMetadata \<Rightarrow> 'w state \<Rightarrow> error option \<times> 'w state" where
  "doUtimes k usePath dirfd baseName fd md s =
     (let ts = [timeToTimespec (AccessTime md), timeToTimespec (ModTime md)] in
      if usePath
      then sys (unix_UtimesNanoAt k dirfd baseName ts AT_SYMLINK_NOFOLLOW)
               (UtimesNanoAt dirfd baseName ts AT_SYMLINK_NOFOLLOW) rep_e s
      else sys (unix_UtimesNanoAt k AT_FDCWD (procPathForFd fd) ts 0)
               (UtimesNanoAt AT_FDCWD (procPathForFd fd) ts 0) rep_e s)"

definition doChmod ::
  "'w env \<Rightarrow> bool \<Rightarrow> int \<Rightarrow> string \<Rightarrow> int \<Rightarrow> FileMode \<Rightarrow> 'w state \<Rightarrow> error option \<times> 'w state" where
  "doChmod k usePath dirfd baseName fd mode s =
     (if usePath
      then sys (unix_Fchmodat k dirfd baseName mode AT_SYMLINK_NOFOLLOW)
               (Fchmodat dirfd baseName mode AT_SYMLINK_NOFOLLOW) rep_e s
      else sys (unix_Fchmod k fd mode) (Fchmod fd mode) rep_e s)"

text \<open>The statements of \<open>setFileAttrs\<close> from the call of \<open>doChown\<close> to the end.\<close>

definition applyAttrs ::
  "'w env \<Rightarrow> bool \<Rightarrow> int \<Rightarrow> string \<Rightarrow> int \<Rightarrow> FileMode \<Rightarrow> fileMetadata \<Rightarrow> TarOptions
     \<Rightarrow> 'w state \<Rightarrow> error option \<times> 'w state" where
  "applyAttrs k usePath dirfd baseName fd mode md options s =
     (case doChown k usePath dirfd baseName fd md s of
        (cerr, s1) \<Rightarrow>
          if cerr \<noteq> None \<and> \<not> IgnoreChownErrors options
          then (Some (Errorf ''chown %q to %d:%d: %w''
                        [AStr (Name md), AInt (UID md), AInt (GID md)] cerr), s1)
          else
            (case setXattrs k fd (Name md) (Xattrs md) s1 of
               (Some err, s2) \<Rightarrow> (Some err, s2)
             | (None, s2) \<Rightarrow>
                 (case doUtimes k usePath dirfd baseName fd md s2 of
                    (uerr, s3) \<Rightarrow>
                      if \<not> canIgnore uerr
                      then (Some (Errorf ''set utimes for %q: %w'' [AStr (Name md)] uerr), s3)
                      else
                        (case doChmod k usePath dirfd baseName fd mode s3 of
                           (merr, s4) \<Rightarrow>
                             if \<not> canIgnore merr
                             then (Some (Errorf ''chmod %q: %w'' [AStr (Name md)] merr), s4)
                             else (None, s4)))))"

definition setFileAttrs ::
  "nat \<Rightarrow> 'w env \<Rightarrow> int \<Rightarrow> os_File option \<Rightarrow> FileMode \<Rightarrow> fileMetadata \<Rightarrow> TarOptions \<Rightarrow> bool
     \<Rightarrow> 'w state \<Rightarrow> (error option \<times> 'w state) option" where
  "setFileAttrs fuel k dirfd file mode md options usePath s =
     (if skipSetAttrs md then Some (None, s)
      else if file = None \<or> Fd file < 0 then Some (Some (New ''invalid file''), s)
      else
        (let fd = sint (Fd file) in
         case typeToTarType k (Type md) of
           Inl err \<Rightarrow> Some (Some err, s)
         | Inr t \<Rightarrow>
             (let usePath' = (if t = tar_TypeSymlink then True else usePath) in
              if usePath' then
                (let dirName = filepath_Dir (Name md); baseName = filepath_Base (Name md) in
                 if dirName \<noteq> [] then
                   (case openFileUnderRoot fuel k dirfd dirName (O_PATH OR O_DIRECTORY) 0 s of
                      None \<Rightarrow> None
                    | Some (Inl err, s1) \<Rightarrow> Some (Some err, s1)
                    | Some (Inr parentFd, s1) \<Rightarrow>
                        (case applyAttrs k usePath' (sint (Fd parentFd)) baseName fd mode md
                                options s1 of
                           (r, s2) \<Rightarrow> Some (r, os_Close k parentFd s2)))
                 else Some (applyAttrs k usePath' dirfd baseName fd mode md options s))
              else Some (applyAttrs k usePath' dirfd [] fd mode md options s))))"

definition safeMkdir ::
  "nat \<Rightarrow> 'w env \<Rightarrow> int \<Rightarrow> FileMode \<Rightarrow> string \<Rightarrow> fileMetadata \<Rightarrow> TarOptions \<Rightarrow> 'w state
     \<Rightarrow> (error option \<times> 'w state) option" where
  "safeMkdir fuel k dirfd mode name md options s =
     (let (parent, base) = filepath_Split name in
      case (if parent \<noteq> [] \<and> parent \<noteq> ''.''
            then (case openOrCreateDirUnderRoot fuel k dirfd parent 0 s of
                    None \<Rightarrow> None
                  | Some (Inl err, s1) \<Rightarrow> Some (Inl err, s1)
                  | Some (Inr parentFile, s1) \<Rightarrow> Some (Inr (sint (Fd parentFile), parentFile), s1))
            else Some (Inr (dirfd, None), s)) of
        None \<Rightarrow> None
      | Some (Inl err, s1) \<Rightarrow> Some (Some err, s1)
      | Some (Inr (parentFd, parentFile), s1) \<Rightarrow>
          (case sys (unix_Mkdirat k parentFd base mode) (Mkdirat parentFd base mode) rep_e s1 of
             (merr, s2) \<Rightarrow>
               if merr \<noteq> None \<and> \<not> os_IsExist (the merr)
               then Some (Some (Errorf ''mkdir %q: %w'' [AStr name] merr), os_Close k parentFile s2)
               else
                 (case openFileUnderRoot fuel k parentFd base (O_DIRECTORY OR O_RDONLY) 0 s2 of
                    None \<Rightarrow> None
                  | Some (Inl err, s3) \<Rightarrow> Some (Some err, os_Close k parentFile s3)
                  | Some (Inr file, s3) \<Rightarrow>
                      (case setFileAttrs fuel k dirfd file mode md options False s3 of
                         None \<Rightarrow> None
                       | Some (r, s4) \<Rightarrow>
                           Some (r, os_Close k parentFile (os_Close k file s4))))))"

text \<open>
  \<open>seekableFile.GetBlobAt\<close>.  \<open>ImageSourceChunk\<close> is declared elsewhere in the package: an
  offset and a length, both \<open>uint64\<close>; \<open>int64(x)\<close> reads the same bits as a signed value.
  The goroutine is the list of the channel operations it performs, in program order.
\<close>

record ImageSourceChunk =
  Offset :: "64 word"
  Length :: "64 word"

record 'r seekableFile =
  reader :: 'r

datatype 'r ReadCloser = NopCloser_SectionReader 'r int int

datatype 'r chan_op = Send_streams "'r ReadCloser" | Send_errs error
  | Close_streams | Close_errs

fun send_chunks :: "'r seekableFile \<Rightarrow> ImageSourceChunk list \<Rightarrow> 'r chan_op list" where
  "send_chunks f [] = []"
| "send_chunks f (chunk # chunks) =
     Send_streams (NopCloser_SectionReader (reader f) (sint (Offset chunk)) (sint (Length chunk)))
       # send_chunks f chunks"

definition GetBlobAt ::
  "'r seekableFile \<Rightarrow> ImageSourceChunk list \<Rightarrow> 'r chan_op list \<times> error option" where
  "GetBlobAt f chunks = (send_chunks f chunks @ [Close_streams, Close_errs], None)"

section \<open>A kernel to run the functions on\<close>

text \<open>
  A stand-in for the world, used to run the functions on concrete inputs.  Its state is a
  script of replies and a table of open regular files (descriptor, position, size).
  \<open>lseek\<close> with \<open>SEEK_CUR\<close> and \<open>ftruncate\<close> act on the table as POSIX describes them;
  every other call takes the next reply of the script, and fails with \<open>EIO\<close> when the
  script has run out or its next reply has the wrong shape.
\<close>

record tworld =
  script :: "reply list"
  files :: "int \<rightharpoonup> int \<times> int"

definition next_e :: "tworld \<Rightarrow> error option \<times> tworld" where
  "next_e w = (case script w of
                 R_ok # rs \<Rightarrow> (None, w\<lparr>script := rs\<rparr>)
               | R_err e # rs \<Rightarrow> (Some e, w\<lparr>script := rs\<rparr>)
               | _ \<Rightarrow> (Some (Errno EIO), w))"

definition next_i :: "tworld \<Rightarrow> (error + int) \<times> tworld" where
  "next_i w = (case script w of
                 R_int n # rs \<Rightarrow> (Inr n, w\<lparr>script := rs\<rparr>)
               | R_err e # rs \<Rightarrow> (Inl e, w\<lparr>script := rs\<rparr>)
               | _ \<Rightarrow> (Inl (Errno EIO), w))"

definition next_s :: "tworld \<Rightarrow> (error + string) \<times> tworld" where
  "next_s w = (case script w of
                 R_str n # rs \<Rightarrow> (Inr n, w\<lparr>script := rs\<rparr>)
               | R_err e # rs \<Rightarrow> (Inl e, w\<lparr>script := rs\<rparr>)
               | _ \<Rightarrow> (Inl (Errno EIO), w))"

definition next_f :: "tworld \<Rightarrow> (error + FileInfo) \<times> tworld" where
  "next_f w = (case script w of
                 R_info n # rs \<Rightarrow> (Inr n, w\<lparr>script := rs\<rparr>)
               | R_err e # rs \<Rightarrow> (Inl e, w\<lparr>script := rs\<rparr>)
               | _ \<Rightarrow> (Inl (Errno EIO), w))"

definition t_Seek :: "int \<Rightarrow> int \<Rightarrow> int \<Rightarrow> tworld \<Rightarrow> (error + int) \<times> tworld" where
  "t_Seek fd n whence w =
     (case files w fd of
        None \<Rightarrow> (Inl (Errno EBADF), w)
      | Some (p, sz) \<Rightarrow>
          if whence \<noteq> SEEK_CUR \<or> p + n < 0 then (Inl (Errno EINVAL), w)
          else (Inr (p + n), w\<lparr>files := (files w)(fd \<mapsto> (p + n, sz))\<rparr>))"

definition t_Ftruncate :: "int \<Rightarrow> int \<Rightarrow> tworld \<Rightarrow> error option \<times> tworld" where
  "t_Ftruncate fd len w =
     (case files w fd of
        None \<Rightarrow> (Some (Errno EBADF), w)
      | Some (p, sz) \<Rightarrow>
          if len < 0 then (Some (Errno EINVAL), w)
          else (None, w\<lparr>files := (files w)(fd \<mapsto> (p, len))\<rparr>))"

definition t_pos :: "tworld \<Rightarrow> int \<Rightarrow> int" where
  "t_pos w fd = (case files w fd of None \<Rightarrow> 0 | Some (p, sz) \<Rightarrow> p)"

definition t_size :: "tworld \<Rightarrow> int \<Rightarrow> int" where
  "t_size w fd = (case files w fd of None \<Rightarrow> 0 | Some (p, sz) \<Rightarrow> sz)"

definition t_typeToTarType :: "string \<Rightarrow> error + 8 word" where
  "t_typeToTarType t =
     (if t = ''reg'' then Inr 0x30 else if t = ''hardlink'' then Inr 0x31
      else if t = ''symlink'' then Inr 0x32 else if t = ''char'' then Inr 0x33
      else if t = ''block'' then Inr 0x34 else if t = ''dir'' then Inr 0x35
      else if t = ''fifo'' then Inr 0x36
      else Inl (Errorf ''unknown type: %v'' [AStr t] None))"

definition tk :: "tworld env" where
  "tk = \<lparr>os_Stat = (\<lambda>p. next_f),
         os_Readlink = (\<lambda>p. next_s),
         unix_Linkat = (\<lambda>a b c d e. next_e),
         unix_Unlinkat = (\<lambda>a b c. next_e),
         unix_Openat2 = (\<lambda>a b c. next_i),
         unix_Open = (\<lambda>a b c. next_i),
         unix_Openat = (\<lambda>a b c d. next_i),
         unix_Close = (\<lambda>a. next_e),
         unix_Dup = (\<lambda>a. next_i),
         unix_Mkdirat = (\<lambda>a b c. next_e),
         unix_Seek = t_Seek,
         unix_Ftruncate = t_Ftruncate,
         unix_Fchown = (\<lambda>a b c. next_e),
         unix_Fchownat = (\<lambda>a b c d e. next_e),
         unix_Fsetxattr = (\<lambda>a b c d. next_e),
         unix_UtimesNanoAt = (\<lambda>a b c d. next_e),
         unix_Fchmod = (\<lambda>a b. next_e),
         unix_Fchmodat = (\<lambda>a b c d. next_e),
         securejoin_SecureJoin = (\<lambda>a b. next_s),
         driversCopy_CopyRegularToFile = (\<lambda>a b c. next_e),
         typeToTarType = t_typeToTarType,
         xattrsToIgnore = [''security.selinux''],
         newFileFlags = O_CREAT OR O_TRUNC OR O_EXCL OR O_WRONLY\<rparr>"

definition scripted :: "reply list \<Rightarrow> tworld state" where
  "scripted rs = init_state \<lparr>script = rs, files = Map.empty\<rparr>"

definition md0 :: fileMetadata where
  "md0 = \<lparr>Type = ''reg'', Name = ''a/f'', Linkname = [], UID = 1000, GID = 1000,
          ModTime = None, AccessTime = None, Xattrs = [], skipSetAttrs = False\<rparr>"

section \<open>What a run adds to the log\<close>

fun is_Openat2 :: "call \<Rightarrow> bool" where
  "is_Openat2 (Openat2 _ _ _) = True"
| "is_Openat2 _ = False"

fun is_Mkdirat :: "call \<Rightarrow> bool" where
  "is_Mkdirat (Mkdirat _ _ _) = True"
| "is_Mkdirat _ = False"

fun is_Copy :: "call \<Rightarrow> bool" where
  "is_Copy (CopyRegularToFile _ _ _) = True"
| "is_Copy _ = False"

fun is_Stat :: "call \<Rightarrow> bool" where
  "is_Stat (Stat _) = True"
| "is_Stat _ = False"

text \<open>The calls of the opener itself, of the hard link, and of the attribute closures.\<close>

fun raw_call :: "call \<Rightarrow> bool" where
  "raw_call (Readlink _) = True"
| "raw_call (SecureJoin _ _) = True"
| "raw_call (Open _ _ _) = True"
| "raw_call (Openat _ _ _ _) = True"
| "raw_call (Openat2 _ _ _) = True"
| "raw_call (Close _) = True"
| "raw_call (Dup _) = True"
| "raw_call _ = False"

fun open_call :: "call \<Rightarrow> bool" where
  "open_call (Mkdirat _ _ _) = True"
| "open_call c = raw_call c"

fun link_call :: "call \<Rightarrow> bool" where
  "link_call (Linkat _ _ _ _ _) = True"
| "link_call (Unlinkat _ _ _) = True"
| "link_call _ = False"

fun attr_call :: "call \<Rightarrow> bool" where
  "attr_call (Fchown _ _ _) = True"
| "attr_call (Fchownat _ _ _ _ _) = True"
| "attr_call (UtimesNanoAt _ _ _ _) = True"
| "attr_call (Fchmod _ _) = True"
| "attr_call (Fchmodat _ _ _ _) = True"
| "attr_call _ = False"

text \<open>The calls \<open>copyFileContent\<close> can make.\<close>

definition copy_call :: "call \<Rightarrow> bool" where
  "copy_call c = (open_call c \<or> link_call c \<or> is_Stat c \<or> is_Copy c)"

text \<open>
  \<open>steps P s s'\<close>: from \<open>s\<close> to \<open>s'\<close> the log only grew, every call added satisfies \<open>P\<close>,
  no \<open>openat2\<close> was added if \<open>skipOpenat2\<close> was set in \<open>s\<close>, and \<open>skipOpenat2\<close> either kept
  its value or went from unset to 1.
\<close>

definition steps :: "(call \<Rightarrow> bool) \<Rightarrow> 'w state \<Rightarrow> 'w state \<Rightarrow> bool" where
  "steps P s s' \<longleftrightarrow>
     (skipOpenat2 s' = skipOpenat2 s \<or> (skipOpenat2 s \<le> 0 \<and> skipOpenat2 s' = 1)) \<and>
     (\<exists>evs. trace s' = trace s @ evs \<and>
        (\<forall>c r. (c, r) \<in> set evs \<longrightarrow> P c \<and> (0 < skipOpenat2 s \<longrightarrow> \<not> is_Openat2 c)))"

text \<open>
  An entry of \<open>Xattrs\<close> whose value stops the loop of \<open>setFileAttrs\<close>: its name is not
  ignored and its value does not decode.
\<close>

definition bad_xattr :: "'w env \<Rightarrow> string \<times> string \<Rightarrow> bool" where
  "bad_xattr k xv =
     (fst xv \<notin> set (xattrsToIgnore k) \<and>
      (case base64_DecodeString (snd xv) of Inl err \<Rightarrow> True | Inr d \<Rightarrow> False))"

text \<open>The entries the loop visits before the first such entry.\<close>

abbreviation good_prefix :: "'w env \<Rightarrow> (string \<times> string) list \<Rightarrow> (string \<times> string) list" where
  "good_prefix k xs \<equiv> takeWhile (\<lambda>xv. \<not> bad_xattr k xv) xs"

text \<open>
  \<open>sets_decoded k fd xs c\<close>: if \<open>c\<close> is a \<open>setxattr\<close> call, it is on \<open>fd\<close>, for an entry of
  \<open>xs\<close> whose name is not ignored, with the decoded value of that entry.
\<close>

definition sets_decoded :: "'w env \<Rightarrow> int \<Rightarrow> (string \<times> string) list \<Rightarrow> call \<Rightarrow> bool" where
  "sets_decoded k fd xs c =
     (case c of
        Fsetxattr fd' x d fl \<Rightarrow>
          fd' = fd \<and> fl = 0 \<and> x \<notin> set (xattrsToIgnore k) \<and>
          (\<exists>v. (x, v) \<in> set xs \<and> base64_DecodeString v = Inr d)
      | _ \<Rightarrow> True)"

text \<open>
  What POSIX says of \<open>lseek(fd, n, SEEK_CUR)\<close> and \<open>ftruncate(fd, len)\<close>, for a kernel whose
  worlds have a position \<open>pos w fd\<close> and a size \<open>fsize w fd\<close> for each open file: a
  successful \<open>lseek\<close> returns the old position plus \<open>n\<close> and leaves the size alone; a
  successful \<open>ftruncate\<close> makes the size \<open>len\<close>.
\<close>

definition posix_files :: "'w env \<Rightarrow> ('w \<Rightarrow> int \<Rightarrow> int) \<Rightarrow> ('w \<Rightarrow> int \<Rightarrow> int) \<Rightarrow> bool" where
  "posix_files k pos fsize \<longleftrightarrow>
     (\<forall>fd n w off w'. unix_Seek k fd n SEEK_CUR w = (Inr off, w')
          \<longrightarrow> off = pos w fd + n \<and> fsize w' fd = fsize w fd) \<and>
     (\<forall>fd len w w'. unix_Ftruncate k fd len w = (None, w') \<longrightarrow> fsize w' fd = len)"

text \<open>
  The rest of the process, as far as \<open>skipOpenat2\<close> is concerned: any sequence of calls of
  the functions above, each with any arguments.
\<close>

datatype api = Call_openFileUnderRootRaw int string flags FileMode
  | Call_openFileUnderRoot int string flags FileMode
  | Call_openOrCreateDirUnderRoot int string FileMode
  | Call_copyFileContent int fileMetadata int FileMode bool
  | Call_setFileAttrs int "os_File option" FileMode fileMetadata TarOptions bool
  | Call_safeMkdir int FileMode string fileMetadata TarOptions
  | Call_appendHole int int

fun call_api :: "nat \<Rightarrow> 'w env \<Rightarrow> api \<Rightarrow> 'w state \<Rightarrow> 'w state option" where
  "call_api fuel k (Call_openFileUnderRootRaw dirfd name fl mode) s =
     Some (snd (openFileUnderRootRaw k dirfd name fl mode s))"
| "call_api fuel k (Call_openFileUnderRoot dirfd name fl mode) s =
     map_option snd (openFileUnderRoot fuel k dirfd name fl mode s)"
| "call_api fuel k (Call_openOrCreateDirUnderRoot dirfd name mode) s =
     map_option snd (openOrCreateDirUnderRoot fuel k dirfd name mode s)"
| "call_api fuel k (Call_copyFileContent srcFd md dirfd mode useHardLinks) s =
     map_option snd (copyFileContent fuel k srcFd md dirfd mode useHardLinks s)"
| "call_api fuel k (Call_setFileAttrs dirfd file mode md options usePath) s =
     map_option snd (setFileAttrs fuel k dirfd file mode md options usePath s)"
| "call_api fuel k (Call_safeMkdir dirfd mode name md options) s =
     map_option snd (safeMkdir fuel k dirfd mode name md options s)"
| "call_api fuel k (Call_appendHole fd n) s = Some (snd (appendHole k fd n s))"

fun run :: "nat \<Rightarrow> 'w env \<Rightarrow> api list \<Rightarrow> 'w state \<Rightarrow> 'w state option" where
  "run fuel k [] s = Some s"
| "run fuel k (a # as) s =
     (case call_api fuel k a s of None \<Rightarrow> None | Some s1 \<Rightarrow> run fuel k as s1)"

section \<open>Inputs for the runs below\<close>

definition closed_file :: "os_File option" where
  "closed_file = Some \<lparr>Sysfd = - 1, file_name = ''a/f''\<rparr>"

definition st_inside :: "tworld state" where
  "st_inside = scripted [R_str ''/r'', R_str ''/proc/self/fd/3/a/b'', R_int 5, R_str ''/r/a/b'']"

definition st_outside :: "tworld state" where
  "st_outside = scripted [R_str ''/r'', R_str ''/proc/self/fd/3/a/b'', R_int 5,
                          R_str ''/etc/passwd'', R_ok]"

definition st_nosys :: "tworld state" where
  "st_nosys = scripted [R_err (Errno ENOSYS), R_str ''/r'', R_str ''/proc/self/fd/3/a'', R_int 5,
                        R_str ''/r/a'', R_int 9, R_str ''/r'', R_str ''/proc/self/fd/3/b'', R_int 6,
                        R_str ''/r/b'']"

definition st_downgraded :: "tworld state" where
  "st_downgraded = snd (openFileUnderRootRaw tk 3 ''a'' 0 0 st_nosys)"

definition st_link :: "tworld state" where
  "st_link = scripted [R_info \<lparr>Size = 42\<rparr>, R_int 4, R_ok, R_ok]"

definition st_xdev :: "tworld state" where
  "st_xdev = scripted [R_info \<lparr>Size = 42\<rparr>, R_int 4, R_err (Errno EXDEV), R_int 9, R_ok, R_ok]"

definition st_nodir :: "tworld state" where
  "st_nodir = scripted [R_info \<lparr>Size = 42\<rparr>, R_err (Errno ENOENT), R_err (Errno ENOENT),
                        R_err (Errno ENOENT), R_int 4, R_ok, R_int 5, R_ok, R_int 9, R_ok, R_ok]"

definition dir4 :: "os_File option" where
  "dir4 = Some \<lparr>Sysfd = 4, file_name = ''a/''\<rparr>"

definition file9 :: "os_File option" where
  "file9 = Some \<lparr>Sysfd = 9, file_name = ''a/f''\<rparr>"

definition st_xdev_denied :: "tworld state" where
  "st_xdev_denied = scripted [R_info \<lparr>Size = 42\<rparr>, R_int 4, R_err (Errno EXDEV),
                              R_err (Errno EACCES), R_ok]"

definition open_denied :: error where
  "open_denied = Errorf ''open file %q under rootfs for copy: %w'' [AStr ''a/f'']
       (Some (Errorf ''open %q under the rootfs: %w'' [AStr ''a/f''] (Some (Errno EACCES))))"

section \<open>What each function adds to the log\<close>

lemma steps_refl: "steps P s s"
  by (simp add: steps_def)

lemma steps_trans: "steps P s s1 \<Longrightarrow> steps P s1 s2 \<Longrightarrow> steps P s s2"
  unfolding steps_def by (elim conjE exE) (auto simp: less_le_not_le)

lemma steps_mono: "steps P s s' \<Longrightarrow> (\<And>c. P c \<Longrightarrow> Q c) \<Longrightarrow> steps Q s s'"
  unfolding steps_def by blast

lemma sys_trace: "sys f c rep s = (r, s') \<Longrightarrow>
    trace s' = trace s @ [(c, rep r)] \<and> skipOpenat2 s' = skipOpenat2 s"
  by (auto simp: sys_def split: prod.splits)

lemma steps_sys: "sys f c rep s = (r, s') \<Longrightarrow> P c \<Longrightarrow> \<not> is_Openat2 c \<Longrightarrow> steps P s s'"
  by (drule sys_trace) (simp add: steps_def)

lemma steps_sys_snd: "P c \<Longrightarrow> \<not> is_Openat2 c \<Longrightarrow> steps P s (snd (sys f c rep s))"
  by (rule steps_sys [of f c rep s "fst (sys f c rep s)"]) simp_all

lemma steps_then_sys_snd:
  "steps P s s1 \<Longrightarrow> P c \<Longrightarrow> \<not> is_Openat2 c \<Longrightarrow> steps P s (snd (sys f c rep s1))"
  by (blast intro: steps_trans steps_sys_snd)

lemma steps_os_Close: "steps P s s1 \<Longrightarrow> (\<And>fd. P (Close fd)) \<Longrightarrow> steps P s (os_Close k f s1)"
  by (auto simp: os_Close_def intro: steps_then_sys_snd split: option.splits)

lemma steps_run_deferred:
  "steps P s s1 \<Longrightarrow> (\<And>fd. P (Close fd)) \<Longrightarrow> steps P s (run_deferred k d s1)"
  by (auto simp: run_deferred_def intro: steps_then_sys_snd split: option.splits)

lemmas peel = steps_os_Close steps_run_deferred steps_then_sys_snd

lemma steps_fallback_open_aux:
  "\<forall>r d s'. fallback_open k dirfd name flags mode s = (r, d, s') \<longrightarrow> steps raw_call s s'"
  unfolding fallback_open_def Let_def
  by (auto split: if_splits prod.splits sum.splits dest!: sys_trace simp: steps_def)

lemmas steps_fallback_open = steps_fallback_open_aux [rule_format]

lemma steps_fallback_verify_aux:
  "\<forall>r s'. fallback_verify k name targetRoot fd s = (r, s') \<longrightarrow> steps raw_call s s'"
  unfolding fallback_verify_def Let_def
  apply (auto split: if_splits prod.splits sum.splits intro!: peel)
  apply (auto dest!: sys_trace simp: steps_def)
  done

lemmas steps_fallback_verify = steps_fallback_verify_aux [rule_format]

lemma steps_Fallback_aux:
  "\<forall>r s'. openFileUnderRootFallback k dirfd name flags mode s = (r, s') \<longrightarrow> steps raw_call s s'"
  unfolding openFileUnderRootFallback_def Let_def
  apply (auto split: prod.splits sum.splits intro!: peel)
  apply (auto dest!: sys_trace steps_fallback_open steps_fallback_verify simp: steps_def)
  apply blast+
  done

lemmas steps_Fallback = steps_Fallback_aux [rule_format]

lemma steps_Raw_aux:
  "\<forall>r s'. openFileUnderRootRaw k dirfd name flags mode s = (r, s') \<longrightarrow> steps raw_call s s'"
  unfolding openFileUnderRootRaw_def openFileUnderRootOpenat2_def Let_def
  apply (auto split: prod.splits sum.splits if_splits intro!: peel)
  apply (auto dest!: sys_trace steps_Fallback simp: steps_def)
  apply blast+
  done

lemmas steps_Raw = steps_Raw_aux [rule_format]

lemma raw_open: "raw_call c \<Longrightarrow> open_call c"
  by (cases c) simp_all

lemmas steps_Raw_open = steps_Raw [THEN steps_mono, OF _ raw_open]

lemma steps_sys_open:
  "sys f c rep s = (r, s') \<Longrightarrow> open_call c \<Longrightarrow> \<not> is_Openat2 c \<Longrightarrow> steps open_call s s'"
  by (rule steps_sys)

lemma steps_openOrCreate_aux:
  "\<forall>dirfd name s r s'. openOrCreateDirUnderRoot n k dirfd name mode s = Some (r, s') \<longrightarrow> steps open_call s s'"
proof (induction n)
  case 0
  then show ?case by simp
next
  case (Suc n)
  note IH = Suc.IH [rule_format]
  show ?case
    apply (simp only: openOrCreateDirUnderRoot.simps Let_def)
    apply (auto split: prod.splits sum.splits if_splits option.splits intro!: peel)
    apply (auto dest!: steps_sys_open steps_Raw_open IH intro: steps_trans)
    done
qed

lemmas steps_openOrCreate = steps_openOrCreate_aux [rule_format]


lemma steps_openFileUnderRoot_aux:
  "\<forall>r s'. openFileUnderRoot n k dirfd name flags mode s = Some (r, s') \<longrightarrow> steps open_call s s'"
  unfolding openFileUnderRoot_def Let_def
  apply (auto split: prod.splits sum.splits if_splits option.splits intro!: peel)
  apply (auto dest!: steps_Raw_open steps_openOrCreate intro: steps_trans)
  done

lemmas steps_openFileUnderRoot = steps_openFileUnderRoot_aux [rule_format]

lemma steps_doLink:
  "doLink k srcFd destDirFd destBase s = (r, s') \<Longrightarrow> steps link_call s s'"
  unfolding doLink_def Let_def by (erule steps_sys) simp_all

lemma steps_doHardLink_aux:
  "\<forall>r s'. doHardLink k srcFd destDirFd destBase s = (r, s') \<longrightarrow> steps link_call s s'"
  unfolding doHardLink_def
  apply (auto split: prod.splits option.splits if_splits dest!: steps_doLink)
  apply (blast intro: steps_trans steps_sys_snd [where P = link_call and c = "Unlinkat a b c" for a b c, simplified])
  done

lemmas steps_doHardLink = steps_doHardLink_aux [rule_format]

lemma steps_appendHole_aux:
  "\<forall>r s'. appendHole k fd n s = (r, s') \<longrightarrow> steps (\<lambda>c. \<not> is_Openat2 c) s s'"
  unfolding appendHole_def
  apply (auto split: prod.splits option.splits sum.splits)
  apply (auto dest!: steps_sys [where P = "\<lambda>c. \<not> is_Openat2 c"] intro: steps_trans)
  done

lemmas steps_appendHole = steps_appendHole_aux [rule_format]

lemma steps_createAndCopy_aux:
  "\<forall>r s'. createAndCopy n k src st destFile dirfd mode s = Some (r, s') \<longrightarrow> steps copy_call s s'"
  unfolding createAndCopy_def
  apply (auto split: prod.splits option.splits sum.splits intro!: peel)
  apply (auto dest!: steps_openFileUnderRoot [THEN steps_mono [where Q = copy_call]]
                     steps_sys [where P = copy_call]
              intro: steps_trans simp: copy_call_def)
  done

lemmas steps_createAndCopy = steps_createAndCopy_aux [rule_format]

lemma steps_copyFileContent_aux:
  "\<forall>r s'. copyFileContent n k srcFd md dirfd mode useHardLinks s = Some (r, s') \<longrightarrow> steps copy_call s s'"
  unfolding copyFileContent_def Let_def
  apply (auto split: prod.splits option.splits sum.splits if_splits intro!: peel)
  apply (auto dest!: steps_openFileUnderRoot [THEN steps_mono [where Q = copy_call]]
                     steps_doHardLink [THEN steps_mono [where Q = copy_call]]
                     steps_createAndCopy
                     steps_sys [where P = copy_call]
              intro: steps_trans simp: copy_call_def)
  done

lemmas steps_copyFileContent = steps_copyFileContent_aux [rule_format]


lemma sets_decoded_mono:
  "sets_decoded k fd xs c \<Longrightarrow> set xs \<subseteq> set ys \<Longrightarrow> sets_decoded k fd ys c"
  by (cases c) (auto simp: sets_decoded_def)

lemma sets_decoded_other [simp]:
  "open_call c \<Longrightarrow> sets_decoded k fd xs c"
  "attr_call c \<Longrightarrow> sets_decoded k fd xs c"
  by (cases c; simp add: sets_decoded_def)+

lemma not_Openat2_attr [simp]: "attr_call c \<Longrightarrow> \<not> is_Openat2 c"
  by (cases c) simp_all

lemma steps_setXattrs_aux:
  "\<forall>s r s'. setXattrs k fd name xs s = (r, s') \<longrightarrow> steps (sets_decoded k fd (good_prefix k xs)) s s'"
proof (induction xs)
  case Nil
  then show ?case by (simp add: steps_refl)
next
  case (Cons xv xs)
  obtain x v where xv: "xv = (x, v)" by (cases xv)
  have up: "steps (sets_decoded k fd (good_prefix k xs)) a b
      \<Longrightarrow> \<not> bad_xattr k (x, v) \<Longrightarrow> steps (sets_decoded k fd (good_prefix k ((x, v) # xs))) a b" for a b
    by (erule steps_mono) (auto elim: sets_decoded_mono)
  show ?case
  proof (intro allI impI)
    fix s r s'
    assume run: "setXattrs k fd name (xv # xs) s = (r, s')"
    show "steps (sets_decoded k fd (good_prefix k (xv # xs))) s s'"
    proof (cases "x \<in> set (xattrsToIgnore k)")
      case True
      with run xv have "setXattrs k fd name xs s = (r, s')" by simp
      with Cons.IH have "steps (sets_decoded k fd (good_prefix k xs)) s s'" by blast
      with True show ?thesis unfolding xv by (intro up) (simp_all add: bad_xattr_def)
    next
      case False
      show ?thesis
      proof (cases "base64_DecodeString v")
        case (Inl err)
        with run xv False have "s' = s" by simp
        then show ?thesis by (simp add: steps_refl)
      next
        case (Inr d)
        obtain e s1 where 1: "sys (unix_Fsetxattr k fd x d 0) (Fsetxattr fd x d 0) rep_e s = (e, s1)"
          by fastforce
        have nb: "\<not> bad_xattr k (x, v)" using Inr by (simp add: bad_xattr_def)
        have A: "steps (sets_decoded k fd (good_prefix k (xv # xs))) s s1"
          using 1 False Inr nb unfolding xv
          by (intro steps_sys [OF 1]) (auto simp: sets_decoded_def)
        show ?thesis
        proof (cases "canIgnore e")
          case True
          with run xv False Inr 1 have "setXattrs k fd name xs s1 = (r, s')" by simp
          with Cons.IH have "steps (sets_decoded k fd (good_prefix k xs)) s1 s'" by blast
          then have "steps (sets_decoded k fd (good_prefix k (xv # xs))) s1 s'"
            unfolding xv using nb by (rule up)
          with A show ?thesis by (rule steps_trans)
        next
          case False
          with run xv \<open>x \<notin> set (xattrsToIgnore k)\<close> Inr 1 have "s' = s1" by simp
          with A show ?thesis by simp
        qed
      qed
    qed
  qed
qed

lemmas steps_setXattrs = steps_setXattrs_aux [rule_format]

lemma setXattrs_fails:
  "(x, v) \<in> set xs \<Longrightarrow> x \<notin> set (xattrsToIgnore k) \<Longrightarrow> base64_DecodeString v = Inl e
     \<Longrightarrow> fst (setXattrs k fd name xs s) \<noteq> None"
proof (induction xs arbitrary: s)
  case Nil
  then show ?case by simp
next
  case (Cons yw xs)
  obtain y w where yw: "yw = (y, w)" by (cases yw)
  show ?case
  proof (cases "(x, v) = (y, w)")
    case True
    with Cons.prems show ?thesis by (simp add: yw)
  next
    case False
    with Cons.prems yw have "(x, v) \<in> set xs" by auto
    from Cons.IH [OF this Cons.prems(2,3)] show ?thesis
      by (simp add: yw split: sum.splits prod.splits)
  qed
qed

lemma steps_doChown:
  "doChown k usePath dirfd baseName fd md s = (r, s') \<Longrightarrow> steps attr_call s s'"
  unfolding doChown_def by (auto split: if_splits elim!: steps_sys)

lemma steps_doUtimes:
  "doUtimes k usePath dirfd baseName fd md s = (r, s') \<Longrightarrow> steps attr_call s s'"
  unfolding doUtimes_def Let_def by (auto split: if_splits elim!: steps_sys)

lemma steps_doChmod:
  "doChmod k usePath dirfd baseName fd mode s = (r, s') \<Longrightarrow> steps attr_call s s'"
  unfolding doChmod_def by (auto split: if_splits elim!: steps_sys)

lemma attr_decoded: "attr_call c \<Longrightarrow> sets_decoded k fd xs c"
  by simp

lemma open_decoded: "open_call c \<Longrightarrow> sets_decoded k fd xs c"
  by simp

lemma steps_applyAttrs:
  assumes run: "applyAttrs k usePath dirfd baseName fd mode md options s = (r, s')"
  shows "steps (sets_decoded k fd (good_prefix k (Xattrs md))) s s'"
proof -
  let ?P = "sets_decoded k fd (good_prefix k (Xattrs md))"
  obtain cerr s1 where 1: "doChown k usePath dirfd baseName fd md s = (cerr, s1)"
    by fastforce
  have A: "steps ?P s s1"
    using steps_doChown [OF 1] by (rule steps_mono) simp
  show ?thesis
  proof (cases "cerr \<noteq> None \<and> \<not> IgnoreChownErrors options")
    case True
    with run 1 have "s' = s1" by (simp add: applyAttrs_def)
    with A show ?thesis by simp
  next
    case noChownErr: False
    obtain xerr s2 where 2: "setXattrs k fd (Name md) (Xattrs md) s1 = (xerr, s2)"
      by fastforce
    have B: "steps ?P s s2"
      using A steps_setXattrs [OF 2] by (rule steps_trans)
    show ?thesis
    proof (cases xerr)
      case (Some e)
      with run 1 2 noChownErr have "s' = s2" by (auto simp: applyAttrs_def)
      with B show ?thesis by simp
    next
      case None
      obtain uerr s3 where 3: "doUtimes k usePath dirfd baseName fd md s2 = (uerr, s3)"
        by fastforce
      have C: "steps ?P s s3"
        using B steps_doUtimes [OF 3, THEN steps_mono, OF attr_decoded] by (rule steps_trans)
      show ?thesis
      proof (cases "canIgnore uerr")
        case False
        with run 1 2 3 noChownErr None have "s' = s3" by (auto simp: applyAttrs_def)
        with C show ?thesis by simp
      next
        case True
        obtain merr s4 where 4: "doChmod k usePath dirfd baseName fd mode s3 = (merr, s4)"
          by fastforce
        have D: "steps ?P s s4"
          using C steps_doChmod [OF 4, THEN steps_mono, OF attr_decoded] by (rule steps_trans)
        from run 1 2 3 4 noChownErr None True have "s' = s4"
          by (auto simp: applyAttrs_def split: if_splits)
        with D show ?thesis by simp
      qed
    qed
  qed
qed


lemma steps_open_decoded:
  "openFileUnderRoot n k dirfd name flags mode s = Some (r, s') \<Longrightarrow> steps (sets_decoded k' fd xs) s s'"
  by (drule steps_openFileUnderRoot, erule steps_mono, simp)

lemma steps_setFileAttrs_aux:
  "\<forall>r s'. setFileAttrs n k dirfd file mode md options usePath s = Some (r, s')
      \<longrightarrow> steps (sets_decoded k (sint (Fd file)) (good_prefix k (Xattrs md))) s s'"
  unfolding setFileAttrs_def Let_def
  apply (auto split: prod.splits option.splits sum.splits if_splits intro!: peel steps_refl
       dest!: steps_applyAttrs
         steps_open_decoded [where k' = k and fd = "sint (Fd file)" and xs = "good_prefix k (Xattrs md)"])
  apply (blast intro: steps_trans)+
  done

lemmas steps_setFileAttrs = steps_setFileAttrs_aux [rule_format]

lemma steps_any: "steps P s s' \<Longrightarrow> steps (\<lambda>c. True) s s'"
  by (erule steps_mono) simp


lemma steps_safeMkdir_aux:
  "\<forall>r s'. safeMkdir n k dirfd mode name md options s = Some (r, s') \<longrightarrow> steps (\<lambda>c. True) s s'"
  unfolding safeMkdir_def Let_def
  apply (auto split: prod.splits option.splits sum.splits if_splits intro!: peel
    dest!: steps_setFileAttrs [THEN steps_any] steps_openFileUnderRoot [THEN steps_any]
       steps_openOrCreate [THEN steps_any] steps_sys [where P = "\<lambda>c. True" and c = "Mkdirat a b c" for a b c, simplified])
  apply (blast intro: steps_trans)+
  done

lemmas steps_safeMkdir = steps_safeMkdir_aux [rule_format]

lemma steps_Raw_snd: "steps (\<lambda>c. True) s (snd (openFileUnderRootRaw k dirfd name flags mode s))"
  by (rule steps_Raw [THEN steps_any, of k dirfd name flags mode s "fst (openFileUnderRootRaw k dirfd name flags mode s)"]) simp

lemma steps_appendHole_snd: "steps (\<lambda>c. True) s (snd (appendHole k fd n s))"
  by (rule steps_appendHole [THEN steps_any, of k fd n s "fst (appendHole k fd n s)"]) simp

lemma steps_call_api_aux:
  "\<forall>s'. call_api n k a s = Some s' \<longrightarrow> steps (\<lambda>c. True) s s'"
  by (cases a)
     (auto dest!: steps_setFileAttrs [THEN steps_any] steps_openFileUnderRoot [THEN steps_any]
       steps_openOrCreate [THEN steps_any] steps_safeMkdir steps_copyFileContent [THEN steps_any]
       intro: steps_Raw_snd steps_appendHole_snd)

lemmas steps_call_api = steps_call_api_aux [rule_format]

lemma steps_run:
  "run n k as s = Some s' \<Longrightarrow> steps (\<lambda>c. True) s s'"
proof (induction as arbitrary: s)
  case Nil
  then show ?case by (simp add: steps_refl)
next
  case (Cons a as)
  then show ?case
    by (auto split: option.splits dest!: steps_call_api intro: steps_trans)
qed

section \<open>The claims\<close>

text \<open>
  Claim C5.  For an entry marked skip-attributes, \<open>setFileAttrs\<close> returns nil and leaves the
  state as it was: no call is made, so no owner, extended attribute, timestamp or mode is
  changed.
\<close>

theorem setFileAttrs_skip_noop:
  "skipSetAttrs md \<Longrightarrow> setFileAttrs fuel k dirfd file mode md options usePath s = Some (None, s)"
  by (simp add: setFileAttrs_def)

theorem setFileAttrs_skip_noop_witness:
  "skipSetAttrs (md0\<lparr>skipSetAttrs := True\<rparr>) \<and>
   setFileAttrs 0 tk 3 (Some \<lparr>Sysfd = 5, file_name = ''a/f''\<rparr>) 0x1A4 (md0\<lparr>skipSetAttrs := True\<rparr>)
     \<lparr>IgnoreChownErrors = False\<rparr> False (scripted [])
   = Some (None, scripted [])"
  using setFileAttrs_skip_noop [of "md0\<lparr>skipSetAttrs := True\<rparr>" 0 tk 3
      "Some \<lparr>Sysfd = 5, file_name = ''a/f''\<rparr>" "0x1A4" "\<lparr>IgnoreChownErrors = False\<rparr>" False "scripted []"]
  by simp

lemma uintptr_never_negative: "(Fd f < 0) = False"
  by simp

text \<open>
  Claim C10, at a closed handle.  \<open>Fd()\<close> is a \<open>uintptr\<close>, so \<open>file.Fd() < 0\<close> is never
  true; for an entry that is not marked skip-attributes, a handle whose descriptor is \<open>-1\<close>
  passes the validation and \<open>fchown\<close> is called on descriptor \<open>-1\<close>.
\<close>

theorem setFileAttrs_closed_handle:
  "sint (Fd closed_file) = - 1 \<and>
   map_option (\<lambda>(r, s). (r, trace s))
     (setFileAttrs 0 tk 3 closed_file 0 md0 \<lparr>IgnoreChownErrors = False\<rparr> False
        (scripted [R_err (Errno EBADF)]))
   = Some (Some (Errorf ''chown %q to %d:%d: %w'' [AStr ''a/f'', AInt 1000, AInt 1000]
                   (Some (Errno EBADF))),
           [(Fchown (- 1) 1000 1000, R_err (Errno EBADF))])"
  by code_simp


lemma send_chunks_map:
  "send_chunks f chunks =
     map (\<lambda>c. Send_streams (NopCloser_SectionReader (reader f) (sint (Offset c)) (sint (Length c))))
       chunks"
  by (induction chunks) simp_all

text \<open>
  Claim C7.  \<open>GetBlobAt\<close> returns a nil error at once; its goroutine sends one section
  reader per chunk, in the order of the chunks, each over the shared reader with the offset
  and length of its chunk (the \<open>uint64\<close> fields read as \<open>int64\<close>), then closes the data
  channel and the error channel, and never sends on the error channel.
\<close>

theorem GetBlobAt_delivers:
  "snd (GetBlobAt f chunks) = None \<and>
   fst (GetBlobAt f chunks) =
     map (\<lambda>c. Send_streams (NopCloser_SectionReader (reader f) (sint (Offset c)) (sint (Length c))))
       chunks @ [Close_streams, Close_errs] \<and>
   (\<forall>e. Send_errs e \<notin> set (fst (GetBlobAt f chunks)))"
  by (auto simp: GetBlobAt_def send_chunks_map)

lemma fallback_verify_Inr:
  assumes "fallback_verify k name targetRoot fd s = (Inr fd', s')"
  shows "fd' = fd \<and> (\<exists>target. trace s' = trace s @ [(Readlink (procPathForFd fd), R_str target)]
           \<and> prefix targetRoot target)"
  using assms unfolding fallback_verify_def
  by (auto split: prod.splits sum.splits if_splits dest!: sys_trace simp: rep_s_def)

lemma stepsD: "steps P s s' \<Longrightarrow> \<exists>evs. trace s' = trace s @ evs"
  by (auto simp: steps_def)

lemma run_deferred_trace:
  "\<exists>post. trace (run_deferred k d s) = trace s @ post \<and> (\<forall>c r. (c, r) \<in> set post \<longrightarrow> (\<exists>x. c = Close x))"
  by (cases d) (auto simp: run_deferred_def sys_def split: prod.splits)

lemma Fallback_Inr:
  assumes "openFileUnderRootFallback k dirfd name flags mode s = (Inr fd, s')"
  shows "\<exists>targetRoot target pre post.
           trace s' = trace s @ (Readlink (procPathForFd dirfd), R_str targetRoot) # pre
                        @ (Readlink (procPathForFd fd), R_str target) # post
           \<and> prefix targetRoot target
           \<and> (\<forall>c r. (c, r) \<in> set post \<longrightarrow> (\<exists>x. c = Close x))"
proof -
  let ?root = "procPathForFd dirfd"
  obtain r1 s1 where 1: "sys (os_Readlink k ?root) (Readlink ?root) rep_s s = (r1, s1)"
    by fastforce
  from assms 1 obtain targetRoot where r1: "r1 = Inr targetRoot"
    by (cases r1) (auto simp: openFileUnderRootFallback_def)
  have t1: "trace s1 = trace s @ [(Readlink ?root, R_str targetRoot)]"
    using sys_trace [OF 1] r1 by (simp add: rep_s_def)
  obtain r2 d s2 where 2: "fallback_open k dirfd name flags mode s1 = (r2, d, s2)"
    by (metis prod_cases3)
  from assms 1 r1 2 obtain fd0 where r2: "r2 = Inr fd0"
    by (cases r2) (auto simp: openFileUnderRootFallback_def)
  from stepsD [OF steps_fallback_open [OF 2]] obtain pre where t2: "trace s2 = trace s1 @ pre"
    by blast
  obtain r3 s3 where 3: "fallback_verify k name targetRoot fd0 s2 = (r3, s3)"
    by fastforce
  from assms 1 r1 2 r2 3 have r3: "r3 = Inr fd" and s': "s' = run_deferred k d s3"
    by (auto simp: openFileUnderRootFallback_def)
  from fallback_verify_Inr [OF 3 [unfolded r3]] obtain target where
    fd0: "fd = fd0" and t3: "trace s3 = trace s2 @ [(Readlink (procPathForFd fd), R_str target)]"
    and pre: "prefix targetRoot target"
    by blast
  from run_deferred_trace [of k d s3] obtain post where
    t4: "trace (run_deferred k d s3) = trace s3 @ post"
    and post: "\<forall>c r. (c, r) \<in> set post \<longrightarrow> (\<exists>x. c = Close x)"
    by blast
  have "trace s' = trace s @ (Readlink ?root, R_str targetRoot) # pre
                        @ (Readlink (procPathForFd fd), R_str target) # post"
    by (simp add: s' t4 t3 t2 t1)
  with pre post show ?thesis by blast
qed

text \<open>
  Claim C1.  When \<open>openFileUnderRootFallback\<close> returns a descriptor, it has read the real
  path of the root first and the real path of that descriptor last (only deferred closes
  follow), and the first is a prefix of the second.  When the real path of the opened
  descriptor does not have the real path of the root as a prefix, the function closes the
  descriptor at once and returns the escape error.
\<close>

theorem openFileUnderRootFallback_contained:
  "(openFileUnderRootFallback k dirfd name flags mode s = (Inr fd, s') \<longrightarrow>
      (\<exists>targetRoot target pre post.
          trace s' = trace s @ (Readlink (procPathForFd dirfd), R_str targetRoot) # pre
                       @ (Readlink (procPathForFd fd), R_str target) # post
          \<and> prefix targetRoot target
          \<and> (\<forall>c r. (c, r) \<in> set post \<longrightarrow> (\<exists>x. c = Close x)))) \<and>
   (sys (os_Readlink k (procPathForFd dirfd)) (Readlink (procPathForFd dirfd)) rep_s s
        = (Inr targetRoot, s1) \<and>
    fallback_open k dirfd name flags mode s1 = (Inr fd, d, s2) \<and>
    sys (os_Readlink k (procPathForFd fd)) (Readlink (procPathForFd fd)) rep_s s2
        = (Inr target, s3) \<and>
    \<not> prefix targetRoot target \<longrightarrow>
      (\<exists>s' r post. openFileUnderRootFallback k dirfd name flags mode s
                     = (Inl (escape_error name), s') \<and>
                   trace s' = trace s3 @ (Close fd, r) # post))"
proof (intro conjI impI)
  assume "openFileUnderRootFallback k dirfd name flags mode s = (Inr fd, s')"
  then show "\<exists>targetRoot target pre post.
          trace s' = trace s @ (Readlink (procPathForFd dirfd), R_str targetRoot) # pre
                       @ (Readlink (procPathForFd fd), R_str target) # post
          \<and> prefix targetRoot target
          \<and> (\<forall>c r. (c, r) \<in> set post \<longrightarrow> (\<exists>x. c = Close x))"
    by (rule Fallback_Inr)
next
  assume a: "sys (os_Readlink k (procPathForFd dirfd)) (Readlink (procPathForFd dirfd)) rep_s s
        = (Inr targetRoot, s1) \<and>
    fallback_open k dirfd name flags mode s1 = (Inr fd, d, s2) \<and>
    sys (os_Readlink k (procPathForFd fd)) (Readlink (procPathForFd fd)) rep_s s2
        = (Inr target, s3) \<and>
    \<not> prefix targetRoot target"
  then show "\<exists>s' r post. openFileUnderRootFallback k dirfd name flags mode s
                     = (Inl (escape_error name), s') \<and>
                   trace s' = trace s3 @ (Close fd, r) # post"
    by (cases d)
       (auto simp: openFileUnderRootFallback_def fallback_verify_def run_deferred_def sys_def
             split: prod.splits)
qed


theorem openFileUnderRootFallback_contained_witness:
  "fst (openFileUnderRootFallback tk 3 ''a/b'' 0 0 st_inside) = Inr 5 \<and>
   (\<exists>targetRoot target pre post.
      trace (snd (openFileUnderRootFallback tk 3 ''a/b'' 0 0 st_inside))
        = trace st_inside @ (Readlink ''/proc/self/fd/3'', R_str targetRoot) # pre
            @ (Readlink ''/proc/self/fd/5'', R_str target) # post
      \<and> prefix targetRoot target) \<and>
   \<not> prefix ''/r'' ''/etc/passwd'' \<and>
   fst (openFileUnderRootFallback tk 3 ''a/b'' 0 0 st_outside) = Inl (escape_error ''a/b'') \<and>
   (\<exists>r. (Close 5, r) \<in> set (trace (snd (openFileUnderRootFallback tk 3 ''a/b'' 0 0 st_outside))))"
proof -
  let ?p3 = "procPathForFd 3" and ?p5 = "procPathForFd 5"
  have p3: "?p3 = ''/proc/self/fd/3''" and p5: "?p5 = ''/proc/self/fd/5''" by code_simp+
  have in1: "fst (openFileUnderRootFallback tk 3 ''a/b'' 0 0 st_inside) = Inr 5" by code_simp
  then have h1: "openFileUnderRootFallback tk 3 ''a/b'' 0 0 st_inside
      = (Inr 5, snd (openFileUnderRootFallback tk 3 ''a/b'' 0 0 st_inside))"
    by (simp add: prod_eq_iff)
  note A = openFileUnderRootFallback_contained [THEN conjunct1, rule_format, OF h1]
  let ?s1 = "snd (sys (os_Readlink tk ?p3) (Readlink ?p3) rep_s st_outside)"
  let ?s2 = "snd (snd (fallback_open tk 3 ''a/b'' 0 0 ?s1))"
  let ?s3 = "snd (sys (os_Readlink tk ?p5) (Readlink ?p5) rep_s ?s2)"
  have a: "sys (os_Readlink tk ?p3) (Readlink ?p3) rep_s st_outside = (Inr ''/r'', ?s1)"
    by (simp add: prod_eq_iff) code_simp
  have b: "fallback_open tk 3 ''a/b'' 0 0 ?s1 = (Inr 5, None, ?s2)"
    by (simp add: prod_eq_iff) code_simp
  have c: "sys (os_Readlink tk ?p5) (Readlink ?p5) rep_s ?s2 = (Inr ''/etc/passwd'', ?s3)"
    by (simp add: prod_eq_iff) code_simp
  have d: "\<not> prefix ''/r'' ''/etc/passwd''" by simp
  from openFileUnderRootFallback_contained [THEN conjunct2, rule_format, OF conjI [OF a conjI [OF b conjI [OF c d]]]]
  obtain s' r post where B: "openFileUnderRootFallback tk 3 ''a/b'' 0 0 st_outside = (Inl (escape_error ''a/b''), s')"
    and C: "trace s' = trace ?s3 @ (Close 5, r) # post"
    by blast
  from B C have "(Close 5, r) \<in> set (trace (snd (openFileUnderRootFallback tk 3 ''a/b'' 0 0 st_outside)))"
    by simp
  with A in1 d B show ?thesis unfolding p3 p5 by auto
qed

lemma stepsD_flag:
  "steps P s s' \<Longrightarrow> skipOpenat2 s' = skipOpenat2 s \<or> (skipOpenat2 s \<le> 0 \<and> skipOpenat2 s' = 1)"
  by (simp add: steps_def)

lemma stepsD_set:
  "steps P s s' \<Longrightarrow> 0 < skipOpenat2 s \<Longrightarrow>
     skipOpenat2 s' = skipOpenat2 s \<and>
     (\<exists>evs. trace s' = trace s @ evs \<and> (\<forall>c r. (c, r) \<in> set evs \<longrightarrow> \<not> is_Openat2 c))"
  unfolding steps_def by auto

lemma sys_flag: "sys f c rep s = (r, s') \<Longrightarrow> skipOpenat2 s' = skipOpenat2 s"
  by (simp add: sys_trace)

lemma sys_flag_snd [simp]: "skipOpenat2 (snd (sys f c rep s)) = skipOpenat2 s"
  by (simp add: sys_def split: prod.splits)

lemma run_deferred_flag [simp]: "skipOpenat2 (run_deferred k d s) = skipOpenat2 s"
  by (simp add: run_deferred_def split: option.splits)

lemma fallback_open_flag:
  "fallback_open k dirfd name flags mode s = (r, d, s') \<Longrightarrow> skipOpenat2 s' = skipOpenat2 s"
  unfolding fallback_open_def Let_def
  by (auto split: if_splits prod.splits sum.splits dest!: sys_flag)

lemma fallback_verify_flag:
  "fallback_verify k name targetRoot fd s = (r, s') \<Longrightarrow> skipOpenat2 s' = skipOpenat2 s"
  unfolding fallback_verify_def
  by (auto split: if_splits prod.splits sum.splits dest!: sys_flag)

lemma Fallback_keeps_flag:
  "skipOpenat2 (snd (openFileUnderRootFallback k dirfd name flags mode s)) = skipOpenat2 s"
  unfolding openFileUnderRootFallback_def Let_def
  by (auto split: prod.splits sum.splits
           dest!: sys_flag fallback_open_flag fallback_verify_flag)

lemma Raw_flag_change:
  assumes "skipOpenat2 (snd (openFileUnderRootRaw k dirfd name flags mode s)) \<noteq> skipOpenat2 s"
  shows "\<exists>err s1. openFileUnderRootOpenat2 k dirfd name flags mode s = (Inl err, s1)
            \<and> errors_Is err ENOSYS \<and> \<not> 0 < skipOpenat2 s"
proof -
  obtain r s1 where 1: "openFileUnderRootOpenat2 k dirfd name flags mode s = (r, s1)"
    by fastforce
  then have f1: "skipOpenat2 s1 = skipOpenat2 s"
    by (auto simp: openFileUnderRootOpenat2_def sys_def Let_def split: prod.splits)
  from assms 1 f1 show ?thesis
    by (cases r)
       (auto simp: openFileUnderRootRaw_def Fallback_keeps_flag sys_def
             split: if_splits prod.splits)
qed

text \<open>
  Claim C6.  With \<open>skipOpenat2\<close> set, \<open>openFileUnderRootRaw\<close> is the fallback opener and makes
  no \<open>openat2\<close> call.  With it unset, an \<open>openat2\<close> that fails with \<open>ENOSYS\<close> sets it to 1 and
  the fallback opener runs; nothing else changes it.  Over any sequence of calls of the
  functions of this file, it keeps its value or goes from unset to 1, and once it is set it
  stays as it is and no \<open>openat2\<close> call is made any more.
\<close>

theorem skipOpenat2_one_way:
  "(name \<noteq> [] \<and> 0 < skipOpenat2 s \<longrightarrow>
      openFileUnderRootRaw k dirfd name flags mode s
        = openFileUnderRootFallback k dirfd name flags mode s) \<and>
   (name \<noteq> [] \<and> \<not> 0 < skipOpenat2 s \<and>
    openFileUnderRootOpenat2 k dirfd name flags mode s = (Inl err, s1) \<and> errors_Is err ENOSYS \<longrightarrow>
      openFileUnderRootRaw k dirfd name flags mode s
        = openFileUnderRootFallback k dirfd name flags mode (s1\<lparr>skipOpenat2 := 1\<rparr>) \<and>
      skipOpenat2 (snd (openFileUnderRootRaw k dirfd name flags mode s)) = 1) \<and>
   (skipOpenat2 (snd (openFileUnderRootRaw k dirfd name flags mode s)) \<noteq> skipOpenat2 s \<longrightarrow>
      (\<exists>e s2. openFileUnderRootOpenat2 k dirfd name flags mode s = (Inl e, s2)
          \<and> errors_Is e ENOSYS \<and> \<not> 0 < skipOpenat2 s)) \<and>
   (run fuel k calls s = Some s' \<longrightarrow>
      (skipOpenat2 s' = skipOpenat2 s \<or> (skipOpenat2 s \<le> 0 \<and> skipOpenat2 s' = 1)) \<and>
      (0 < skipOpenat2 s \<longrightarrow>
         skipOpenat2 s' = skipOpenat2 s \<and>
         (\<exists>evs. trace s' = trace s @ evs \<and> (\<forall>c r. (c, r) \<in> set evs \<longrightarrow> \<not> is_Openat2 c))))"
proof (intro conjI impI)
  assume "name \<noteq> [] \<and> 0 < skipOpenat2 s"
  then show "openFileUnderRootRaw k dirfd name flags mode s
        = openFileUnderRootFallback k dirfd name flags mode s"
    by (simp add: openFileUnderRootRaw_def)
next
  assume a: "name \<noteq> [] \<and> \<not> 0 < skipOpenat2 s \<and>
    openFileUnderRootOpenat2 k dirfd name flags mode s = (Inl err, s1) \<and> errors_Is err ENOSYS"
  then show eq: "openFileUnderRootRaw k dirfd name flags mode s
        = openFileUnderRootFallback k dirfd name flags mode (s1\<lparr>skipOpenat2 := 1\<rparr>)"
    by (simp add: openFileUnderRootRaw_def)
  show "skipOpenat2 (snd (openFileUnderRootRaw k dirfd name flags mode s)) = 1"
    by (simp add: eq Fallback_keeps_flag)
next
  assume "skipOpenat2 (snd (openFileUnderRootRaw k dirfd name flags mode s)) \<noteq> skipOpenat2 s"
  then show "\<exists>e s2. openFileUnderRootOpenat2 k dirfd name flags mode s = (Inl e, s2)
          \<and> errors_Is e ENOSYS \<and> \<not> 0 < skipOpenat2 s"
    by (rule Raw_flag_change)
next
  assume "run fuel k calls s = Some s'"
  then have st: "steps (\<lambda>c. True) s s'" by (rule steps_run)
  then show "skipOpenat2 s' = skipOpenat2 s \<or> (skipOpenat2 s \<le> 0 \<and> skipOpenat2 s' = 1)"
    by (rule stepsD_flag)
  {
    assume "0 < skipOpenat2 s"
    with st show "skipOpenat2 s' = skipOpenat2 s" 
      and "\<exists>evs. trace s' = trace s @ evs \<and> (\<forall>c r. (c, r) \<in> set evs \<longrightarrow> \<not> is_Openat2 c)"
      by (auto dest: stepsD_set)
  }
qed

theorem skipOpenat2_one_way_witness:
  "skipOpenat2 st_nosys = 0 \<and>
   fst (openFileUnderRootOpenat2 tk 3 ''a'' 0 0 st_nosys) = Inl (Errno ENOSYS) \<and>
   skipOpenat2 st_downgraded = 1 \<and>
   fst (openFileUnderRootRaw tk 3 ''a'' 0 0 st_nosys) = Inr 5 \<and>
   openFileUnderRootRaw tk 3 ''b'' 0 0 st_downgraded
     = openFileUnderRootFallback tk 3 ''b'' 0 0 st_downgraded \<and>
   (\<exists>s'. run 1 tk [Call_openFileUnderRootRaw 3 [] 0 0, Call_openFileUnderRootRaw 3 ''b'' 0 0]
            st_downgraded = Some s' \<and>
         skipOpenat2 s' = 1 \<and>
         (\<exists>evs. trace s' = trace st_downgraded @ evs \<and> (\<forall>c r. (c, r) \<in> set evs \<longrightarrow> \<not> is_Openat2 c)))"
proof -
  let ?s1 = "snd (openFileUnderRootOpenat2 tk 3 ''a'' 0 0 st_nosys)"
  have f0: "skipOpenat2 st_nosys = 0" by code_simp
  have o: "fst (openFileUnderRootOpenat2 tk 3 ''a'' 0 0 st_nosys) = Inl (Errno ENOSYS)" by code_simp
  then have h2: "''a'' \<noteq> [] \<and> \<not> 0 < skipOpenat2 st_nosys \<and>
      openFileUnderRootOpenat2 tk 3 ''a'' 0 0 st_nosys = (Inl (Errno ENOSYS), ?s1) \<and>
      errors_Is (Errno ENOSYS) ENOSYS"
    by (simp add: prod_eq_iff f0)
  note A = skipOpenat2_one_way [THEN conjunct2, THEN conjunct1, rule_format, OF h2]
  have f1: "skipOpenat2 st_downgraded = 1"
    unfolding st_downgraded_def by (rule A [THEN conjunct2])
  have r1: "fst (openFileUnderRootRaw tk 3 ''a'' 0 0 st_nosys) = Inr 5" by code_simp
  have "skipOpenat2 st_downgraded \<noteq> skipOpenat2 st_nosys" by (simp add: f0 f1)
  note C = skipOpenat2_one_way [THEN conjunct2, THEN conjunct2, THEN conjunct1, rule_format,
      of tk 3 "''a''" 0 0 st_nosys, OF this [unfolded st_downgraded_def]]
  have h1: "''b'' \<noteq> [] \<and> 0 < skipOpenat2 st_downgraded" by (simp add: f1)
  note B = skipOpenat2_one_way [THEN conjunct1, rule_format, OF h1]
  obtain s' where run: "run 1 tk [Call_openFileUnderRootRaw 3 [] 0 0, Call_openFileUnderRootRaw 3 ''b'' 0 0]
            st_downgraded = Some s'"
    by simp
  note D = skipOpenat2_one_way [THEN conjunct2, THEN conjunct2, THEN conjunct2, rule_format, OF run]
  from D f1 have "skipOpenat2 s' = 1 \<and>
     (\<exists>evs. trace s' = trace st_downgraded @ evs \<and> (\<forall>c r. (c, r) \<in> set evs \<longrightarrow> \<not> is_Openat2 c))"
    by simp
  with f0 o f1 r1 B C run show ?thesis by blast
qed

lemma pairI: "fst p = a \<Longrightarrow> p = (a, snd p)"
  by auto

lemma some_pairI: "map_option fst X = Some a \<Longrightarrow> X = Some (a, snd (the X))"
  by (cases X) auto

lemma not_copy: "open_call c \<or> link_call c \<or> is_Stat c \<Longrightarrow> \<not> is_Copy c"
  by (cases c) simp_all

lemma not_Openat2_misc: "link_call c \<or> is_Stat c \<or> is_Copy c \<Longrightarrow> \<not> is_Openat2 c"
  by (cases c) simp_all

lemma stepsD_all:
  "steps P s s' \<Longrightarrow> \<exists>evs. trace s' = trace s @ evs \<and> (\<forall>c r. (c, r) \<in> set evs \<longrightarrow> P c)"
  unfolding steps_def by blast

text \<open>
  Claim C2.  With hard links enabled and the source stat'ed: if the parent directory opens and
  the hard link succeeds, \<open>copyFileContent\<close> sets \<open>skipSetAttrs\<close>, returns a nil handle, the
  size of the stat and a nil error, and has made no \<open>CopyRegularToFile\<close> call.  If the link
  fails, or the parent directory does not open, and the file is then created under the root
  and copied, it returns the new handle and the size of the stat, and leaves the record as it
  was.
\<close>

theorem copyFileContent_hardlink:
  assumes stat: "sys (os_Stat k (procPathForFd srcFd)) (Stat (procPathForFd srcFd)) rep_f s = (Inr st, s1)"
  shows
   "(openFileUnderRoot fuel k dirfd (fst (filepath_Split (Name md))) 0 0 s1 = Some (Inr destDir, s2) \<and>
     doHardLink k srcFd (sint (Fd destDir)) (snd (filepath_Split (Name md))) s2 = (None, s3) \<longrightarrow>
       copyFileContent fuel k srcFd md dirfd mode True s
         = Some ((md\<lparr>skipSetAttrs := True\<rparr>, None, Size st, None), os_Close k destDir s3) \<and>
       (\<exists>evs. trace (os_Close k destDir s3) = trace s @ evs \<and>
              (\<forall>c r. (c, r) \<in> set evs \<longrightarrow> \<not> is_Copy c))) \<and>
    (openFileUnderRoot fuel k dirfd (fst (filepath_Split (Name md))) 0 0 s1 = Some (Inr destDir, s2) \<and>
     doHardLink k srcFd (sint (Fd destDir)) (snd (filepath_Split (Name md))) s2 = (Some e, s3) \<and>
     openFileUnderRoot fuel k dirfd (Name md) (newFileFlags k) mode s3 = Some (Inr dstFile, s4) \<and>
     sys (driversCopy_CopyRegularToFile k (procPathForFd srcFd) dstFile st)
         (CopyRegularToFile (procPathForFd srcFd) dstFile st) rep_e s4 = (None, s5) \<longrightarrow>
       copyFileContent fuel k srcFd md dirfd mode True s
         = Some ((md, dstFile, Size st, None), os_Close k destDir s5)) \<and>
    (openFileUnderRoot fuel k dirfd (fst (filepath_Split (Name md))) 0 0 s1 = Some (Inl e, s2) \<and>
     openFileUnderRoot fuel k dirfd (Name md) (newFileFlags k) mode s2 = Some (Inr dstFile, s4) \<and>
     sys (driversCopy_CopyRegularToFile k (procPathForFd srcFd) dstFile st)
         (CopyRegularToFile (procPathForFd srcFd) dstFile st) rep_e s4 = (None, s5) \<longrightarrow>
       copyFileContent fuel k srcFd md dirfd mode True s = Some ((md, dstFile, Size st, None), s5))"
proof (intro conjI impI)
  assume a: "openFileUnderRoot fuel k dirfd (fst (filepath_Split (Name md))) 0 0 s1 = Some (Inr destDir, s2) \<and>
     doHardLink k srcFd (sint (Fd destDir)) (snd (filepath_Split (Name md))) s2 = (None, s3)"
  with stat show "copyFileContent fuel k srcFd md dirfd mode True s
         = Some ((md\<lparr>skipSetAttrs := True\<rparr>, None, Size st, None), os_Close k destDir s3)"
    by (simp add: copyFileContent_def split_beta)
  let ?P = "\<lambda>c. open_call c \<or> link_call c \<or> is_Stat c"
  have "steps ?P s s1"
    by (rule steps_sys [OF stat]) simp_all
  moreover have "steps ?P s1 s2"
    using a by (blast intro: steps_mono [OF steps_openFileUnderRoot])
  moreover have "steps ?P s2 s3"
    using a by (blast intro: steps_mono [OF steps_doHardLink])
  ultimately have "steps ?P s s3"
    by (blast intro: steps_trans)
  then have "steps ?P s (os_Close k destDir s3)"
    by (rule steps_os_Close) simp
  then have "steps (\<lambda>c. \<not> is_Copy c) s (os_Close k destDir s3)"
    by (rule steps_mono) (rule not_copy)
  then show "\<exists>evs. trace (os_Close k destDir s3) = trace s @ evs \<and>
              (\<forall>c r. (c, r) \<in> set evs \<longrightarrow> \<not> is_Copy c)"
    by (rule stepsD_all)
next
  assume "openFileUnderRoot fuel k dirfd (fst (filepath_Split (Name md))) 0 0 s1 = Some (Inr destDir, s2) \<and>
     doHardLink k srcFd (sint (Fd destDir)) (snd (filepath_Split (Name md))) s2 = (Some e, s3) \<and>
     openFileUnderRoot fuel k dirfd (Name md) (newFileFlags k) mode s3 = Some (Inr dstFile, s4) \<and>
     sys (driversCopy_CopyRegularToFile k (procPathForFd srcFd) dstFile st)
         (CopyRegularToFile (procPathForFd srcFd) dstFile st) rep_e s4 = (None, s5)"
  with stat show "copyFileContent fuel k srcFd md dirfd mode True s
         = Some ((md, dstFile, Size st, None), os_Close k destDir s5)"
    by (simp add: copyFileContent_def createAndCopy_def split_beta)
next
  assume "openFileUnderRoot fuel k dirfd (fst (filepath_Split (Name md))) 0 0 s1 = Some (Inl e, s2) \<and>
     openFileUnderRoot fuel k dirfd (Name md) (newFileFlags k) mode s2 = Some (Inr dstFile, s4) \<and>
     sys (driversCopy_CopyRegularToFile k (procPathForFd srcFd) dstFile st)
         (CopyRegularToFile (procPathForFd srcFd) dstFile st) rep_e s4 = (None, s5)"
  with stat show "copyFileContent fuel k srcFd md dirfd mode True s = Some ((md, dstFile, Size st, None), s5)"
    by (simp add: copyFileContent_def createAndCopy_def split_beta)
qed

lemma createAndCopy_error:
  assumes "createAndCopy fuel k src st destFile dirfd mode s = Some ((f, n, Some x), s')"
  shows "\<exists>e'. x = Errorf ''open file %q under rootfs for copy: %w'' [AStr destFile] (Some e')
            \<or> x = Errorf ''copy to file %q under rootfs: %w'' [AStr destFile] (Some e')"
  using assms unfolding createAndCopy_def
  by (auto split: option.splits prod.splits sum.splits)

lemma copyFileContent_result:
  assumes "copyFileContent fuel k srcFd md dirfd mode useHardLinks s = Some ((md', f, n, err), s')"
  shows "(md' = md \<or> (md' = md\<lparr>skipSetAttrs := True\<rparr> \<and> f = None \<and> err = None \<and> useHardLinks)) \<and>
         (\<forall>x. err = Some x \<longrightarrow> md' = md \<and>
            (\<exists>e'. x = Errorf ''copy file content for %q: %w'' [AStr (Name md)] (Some e')
               \<or> x = Errorf ''open file %q under rootfs for copy: %w'' [AStr (Name md)] (Some e')
               \<or> x = Errorf ''copy to file %q under rootfs: %w'' [AStr (Name md)] (Some e')))"
  using assms unfolding copyFileContent_def Let_def
  by (auto split: option.splits prod.splits sum.splits if_splits dest!: createAndCopy_error)

text \<open>
  Claim C9.  With hard links enabled, if the parent directory of the destination does not
  open, or the hard link fails, the result of \<open>copyFileContent\<close> is the result of creating the
  file and copying into it, with the record unchanged: the error of the attempt is dropped.
  In every run the record comes back unchanged unless the link succeeded, and an error
  returned is one of the three wrapped errors of the stat, of the creation and of the copy.
\<close>

theorem copyFileContent_link_failure:
  assumes stat: "sys (os_Stat k (procPathForFd srcFd)) (Stat (procPathForFd srcFd)) rep_f s = (Inr st, s1)"
  shows
   "(openFileUnderRoot fuel k dirfd (fst (filepath_Split (Name md))) 0 0 s1 = Some (Inl e, s2) \<longrightarrow>
       copyFileContent fuel k srcFd md dirfd mode True s
         = map_option (\<lambda>(r, s'). ((md, r), s'))
             (createAndCopy fuel k (procPathForFd srcFd) st (Name md) dirfd mode s2)) \<and>
    (openFileUnderRoot fuel k dirfd (fst (filepath_Split (Name md))) 0 0 s1 = Some (Inr destDir, s2) \<and>
     doHardLink k srcFd (sint (Fd destDir)) (snd (filepath_Split (Name md))) s2 = (Some e, s3) \<longrightarrow>
       copyFileContent fuel k srcFd md dirfd mode True s
         = map_option (\<lambda>(r, s'). ((md, r), os_Close k destDir s'))
             (createAndCopy fuel k (procPathForFd srcFd) st (Name md) dirfd mode s3)) \<and>
    (copyFileContent fuel k srcFd md dirfd mode useHardLinks s = Some ((md', f, n, err), s') \<longrightarrow>
       (md' = md \<or> (md' = md\<lparr>skipSetAttrs := True\<rparr> \<and> f = None \<and> err = None \<and> useHardLinks)) \<and>
       (\<forall>x. err = Some x \<longrightarrow> md' = md \<and>
          (\<exists>e'. x = Errorf ''copy file content for %q: %w'' [AStr (Name md)] (Some e')
             \<or> x = Errorf ''open file %q under rootfs for copy: %w'' [AStr (Name md)] (Some e')
             \<or> x = Errorf ''copy to file %q under rootfs: %w'' [AStr (Name md)] (Some e'))))"
proof (intro conjI impI)
  assume "openFileUnderRoot fuel k dirfd (fst (filepath_Split (Name md))) 0 0 s1 = Some (Inl e, s2)"
  with stat show "copyFileContent fuel k srcFd md dirfd mode True s
         = map_option (\<lambda>(r, s'). ((md, r), s'))
             (createAndCopy fuel k (procPathForFd srcFd) st (Name md) dirfd mode s2)"
    by (simp add: copyFileContent_def split_beta)
next
  assume "openFileUnderRoot fuel k dirfd (fst (filepath_Split (Name md))) 0 0 s1 = Some (Inr destDir, s2) \<and>
     doHardLink k srcFd (sint (Fd destDir)) (snd (filepath_Split (Name md))) s2 = (Some e, s3)"
  with stat show "copyFileContent fuel k srcFd md dirfd mode True s
         = map_option (\<lambda>(r, s'). ((md, r), os_Close k destDir s'))
             (createAndCopy fuel k (procPathForFd srcFd) st (Name md) dirfd mode s3)"
    by (simp add: copyFileContent_def split_beta)
next
  assume a: "copyFileContent fuel k srcFd md dirfd mode useHardLinks s = Some ((md', f, n, err), s')"
  from copyFileContent_result [OF a]
  show "md' = md \<or> (md' = md\<lparr>skipSetAttrs := True\<rparr> \<and> f = None \<and> err = None \<and> useHardLinks)"
    and "\<forall>x. err = Some x \<longrightarrow> md' = md \<and>
          (\<exists>e'. x = Errorf ''copy file content for %q: %w'' [AStr (Name md)] (Some e')
             \<or> x = Errorf ''open file %q under rootfs for copy: %w'' [AStr (Name md)] (Some e')
             \<or> x = Errorf ''copy to file %q under rootfs: %w'' [AStr (Name md)] (Some e'))"
    by blast+
qed

theorem copyFileContent_hardlink_witness:
  "map_option (\<lambda>((m, r), s). (skipSetAttrs m, r)) (copyFileContent 3 tk 7 md0 3 0x1A4 True st_link)
     = Some (True, None, 42, None) \<and>
   (\<exists>s'. map_option snd (copyFileContent 3 tk 7 md0 3 0x1A4 True st_link) = Some s' \<and>
      (\<exists>evs. trace s' = trace st_link @ evs \<and> (\<forall>c r. (c, r) \<in> set evs \<longrightarrow> \<not> is_Copy c))) \<and>
   map_option (\<lambda>((m, r), s). (skipSetAttrs m, r)) (copyFileContent 3 tk 7 md0 3 0x1A4 True st_xdev)
     = Some (False, file9, 42, None) \<and>
   map_option (\<lambda>((m, r), s). (skipSetAttrs m, r)) (copyFileContent 3 tk 7 md0 3 0x1A4 True st_nodir)
     = Some (False, file9, 42, None)"
proof -
  let ?p7 = "procPathForFd 7"
  let ?dirp = "fst (filepath_Split (Name md0))" and ?base = "snd (filepath_Split (Name md0))"
  let ?st = "\<lparr>Size = 42\<rparr>"
  have sk: "skipSetAttrs md0 = False" by (simp add: md0_def)
  \<comment> \<open>the hard link succeeds\<close>
  let ?a1 = "snd (sys (os_Stat tk ?p7) (Stat ?p7) rep_f st_link)"
  let ?a2 = "snd (the (openFileUnderRoot 3 tk 3 ?dirp 0 0 ?a1))"
  let ?a3 = "snd (doHardLink tk 7 (sint (Fd dir4)) ?base ?a2)"
  have a1: "sys (os_Stat tk ?p7) (Stat ?p7) rep_f st_link = (Inr ?st, ?a1)"
    by (rule pairI) code_simp
  have a2: "openFileUnderRoot 3 tk 3 ?dirp 0 0 ?a1 = Some (Inr dir4, ?a2)"
    by (rule some_pairI) code_simp
  have a3: "doHardLink tk 7 (sint (Fd dir4)) ?base ?a2 = (None, ?a3)"
    by (rule pairI) code_simp
  note A = copyFileContent_hardlink [OF a1, THEN conjunct1, rule_format, OF conjI [OF a2 a3],
      where mode = "0x1A4"]
  \<comment> \<open>the hard link fails, the copy succeeds\<close>
  let ?b1 = "snd (sys (os_Stat tk ?p7) (Stat ?p7) rep_f st_xdev)"
  let ?b2 = "snd (the (openFileUnderRoot 3 tk 3 ?dirp 0 0 ?b1))"
  let ?b3 = "snd (doHardLink tk 7 (sint (Fd dir4)) ?base ?b2)"
  let ?b4 = "snd (the (openFileUnderRoot 3 tk 3 (Name md0) (newFileFlags tk) 0x1A4 ?b3))"
  let ?b5 = "snd (sys (driversCopy_CopyRegularToFile tk ?p7 file9 ?st)
                      (CopyRegularToFile ?p7 file9 ?st) rep_e ?b4)"
  have b1: "sys (os_Stat tk ?p7) (Stat ?p7) rep_f st_xdev = (Inr ?st, ?b1)"
    by (rule pairI) code_simp
  have b2: "openFileUnderRoot 3 tk 3 ?dirp 0 0 ?b1 = Some (Inr dir4, ?b2)"
    by (rule some_pairI) code_simp
  have b3: "doHardLink tk 7 (sint (Fd dir4)) ?base ?b2 = (Some (Errno EXDEV), ?b3)"
    by (rule pairI) code_simp
  have b4: "openFileUnderRoot 3 tk 3 (Name md0) (newFileFlags tk) 0x1A4 ?b3 = Some (Inr file9, ?b4)"
    by (rule some_pairI) code_simp
  have b5: "sys (driversCopy_CopyRegularToFile tk ?p7 file9 ?st)
                (CopyRegularToFile ?p7 file9 ?st) rep_e ?b4 = (None, ?b5)"
    by (rule pairI) code_simp
  note B = copyFileContent_hardlink [OF b1, THEN conjunct2, THEN conjunct1, rule_format,
      OF conjI [OF b2 conjI [OF b3 conjI [OF b4 b5]]]]
  \<comment> \<open>the parent directory cannot be opened, the copy succeeds\<close>
  let ?c1 = "snd (sys (os_Stat tk ?p7) (Stat ?p7) rep_f st_nodir)"
  let ?c2 = "snd (the (openFileUnderRoot 3 tk 3 ?dirp 0 0 ?c1))"
  let ?c4 = "snd (the (openFileUnderRoot 3 tk 3 (Name md0) (newFileFlags tk) 0x1A4 ?c2))"
  let ?c5 = "snd (sys (driversCopy_CopyRegularToFile tk ?p7 file9 ?st)
                      (CopyRegularToFile ?p7 file9 ?st) rep_e ?c4)"
  let ?e = "Errorf ''open %q under the rootfs: %w'' [AStr ''a/''] (Some (Errno ENOENT))"
  have c1: "sys (os_Stat tk ?p7) (Stat ?p7) rep_f st_nodir = (Inr ?st, ?c1)"
    by (rule pairI) code_simp
  have c2: "openFileUnderRoot 3 tk 3 ?dirp 0 0 ?c1 = Some (Inl ?e, ?c2)"
    by (rule some_pairI) code_simp
  have c4: "openFileUnderRoot 3 tk 3 (Name md0) (newFileFlags tk) 0x1A4 ?c2 = Some (Inr file9, ?c4)"
    by (rule some_pairI) code_simp
  have c5: "sys (driversCopy_CopyRegularToFile tk ?p7 file9 ?st)
                (CopyRegularToFile ?p7 file9 ?st) rep_e ?c4 = (None, ?c5)"
    by (rule pairI) code_simp
  note C = copyFileContent_hardlink [OF c1, THEN conjunct2, THEN conjunct2, rule_format,
      OF conjI [OF c2 conjI [OF c4 c5]]]
  from A B C sk show ?thesis by simp
qed

theorem copyFileContent_link_failure_witness:
  "map_option fst (copyFileContent 3 tk 7 md0 3 0x1A4 True st_nodir)
     = Some (md0, file9, 42, None) \<and>
   map_option fst (copyFileContent 3 tk 7 md0 3 0x1A4 True st_xdev)
     = Some (md0, file9, 42, None) \<and>
   map_option fst (copyFileContent 3 tk 7 md0 3 0x1A4 True st_xdev_denied)
     = Some (md0, None, - 1, Some open_denied) \<and>
   \<not> skipSetAttrs md0 \<and>
   (\<exists>e'. open_denied = Errorf ''open file %q under rootfs for copy: %w'' [AStr (Name md0)] (Some e'))"
proof -
  let ?p7 = "procPathForFd 7"
  let ?dirp = "fst (filepath_Split (Name md0))" and ?base = "snd (filepath_Split (Name md0))"
  let ?st = "\<lparr>Size = 42\<rparr>"
  \<comment> \<open>the parent directory cannot be opened\<close>
  let ?c1 = "snd (sys (os_Stat tk ?p7) (Stat ?p7) rep_f st_nodir)"
  let ?c2 = "snd (the (openFileUnderRoot 3 tk 3 ?dirp 0 0 ?c1))"
  let ?e = "Errorf ''open %q under the rootfs: %w'' [AStr ''a/''] (Some (Errno ENOENT))"
  have c1: "sys (os_Stat tk ?p7) (Stat ?p7) rep_f st_nodir = (Inr ?st, ?c1)"
    by (rule pairI) code_simp
  have c2: "openFileUnderRoot 3 tk 3 ?dirp 0 0 ?c1 = Some (Inl ?e, ?c2)"
    by (rule some_pairI) code_simp
  have c3: "map_option fst (createAndCopy 3 tk ?p7 ?st (Name md0) 3 0x1A4 ?c2) = Some (file9, 42, None)"
    by code_simp
  from copyFileContent_link_failure [OF c1, THEN conjunct1, rule_format, OF c2, where mode = "0x1A4"] c3
  have C: "map_option fst (copyFileContent 3 tk 7 md0 3 0x1A4 True st_nodir) = Some (md0, file9, 42, None)"
    by (auto simp: map_option_case split: option.splits)
  \<comment> \<open>the link fails\<close>
  let ?b1 = "snd (sys (os_Stat tk ?p7) (Stat ?p7) rep_f st_xdev)"
  let ?b2 = "snd (the (openFileUnderRoot 3 tk 3 ?dirp 0 0 ?b1))"
  let ?b3 = "snd (doHardLink tk 7 (sint (Fd dir4)) ?base ?b2)"
  have b1: "sys (os_Stat tk ?p7) (Stat ?p7) rep_f st_xdev = (Inr ?st, ?b1)"
    by (rule pairI) code_simp
  have b2: "openFileUnderRoot 3 tk 3 ?dirp 0 0 ?b1 = Some (Inr dir4, ?b2)"
    by (rule some_pairI) code_simp
  have b3: "doHardLink tk 7 (sint (Fd dir4)) ?base ?b2 = (Some (Errno EXDEV), ?b3)"
    by (rule pairI) code_simp
  have b4: "map_option fst (createAndCopy 3 tk ?p7 ?st (Name md0) 3 0x1A4 ?b3) = Some (file9, 42, None)"
    by code_simp
  from copyFileContent_link_failure [OF b1, THEN conjunct2, THEN conjunct1, rule_format,
      OF conjI [OF b2 b3], where mode = "0x1A4"] b4
  have B: "map_option fst (copyFileContent 3 tk 7 md0 3 0x1A4 True st_xdev) = Some (md0, file9, 42, None)"
    by (auto simp: map_option_case split: option.splits)
  \<comment> \<open>the link fails and the file cannot be created\<close>
  have d0: "map_option fst (copyFileContent 3 tk 7 md0 3 0x1A4 True st_xdev_denied)
      = Some (md0, None, - 1, Some open_denied)"
    by code_simp
  note d1 = some_pairI [OF d0]
  have d2: "sys (os_Stat tk ?p7) (Stat ?p7) rep_f st_xdev_denied
      = (Inr ?st, snd (sys (os_Stat tk ?p7) (Stat ?p7) rep_f st_xdev_denied))"
    by (rule pairI) code_simp
  from copyFileContent_link_failure [OF d2, THEN conjunct2, THEN conjunct2, rule_format, OF d1]
  have D: "\<exists>e'. open_denied = Errorf ''open file %q under rootfs for copy: %w'' [AStr (Name md0)] (Some e')"
    by (auto simp: open_denied_def)
  have "\<not> skipSetAttrs md0" by (simp add: md0_def)
  with C B d0 D show ?thesis by blast
qed

end
